theory Spec2Isabelle
  imports Main "HOL-Library.Word"
begin

section \<open>Portal Gun LED controller (Portal\_Gun\_v3\_1.ino, version 3.1)\<close>

text \<open>
  The sketch is a single-threaded Arduino program: \<open>setup()\<close> runs once, then
  \<open>loop()\<close> runs forever. All of its state is file-scope globals plus the state of the
  peripherals it drives. The model passes one record through every function: the ten
  globals of the sketch, followed by the hardware as the sketch can observe or change it.

  \<^item> \<open>clock\<close> is the value \<open>millis()\<close> returns (\<open>unsigned long\<close>, 32 bits, wraps);
    \<open>delay(ms)\<close> advances it by \<open>ms\<close>. Code between two delays costs no model time.
  \<^item> \<open>pwm\<close> holds the duty cycle last written to each pin by \<open>analogWrite\<close>, and
    \<open>pwmLog\<close> every write in order, so that the intermediate steps of a fade are visible.
  \<^item> \<open>dout\<close> holds the level last written to each pin by \<open>digitalWrite\<close>.
  \<^item> \<open>audioLog\<close> lists the commands sent to the DFPlayer.
  \<^item> \<open>displayBuf\<close> is the frame buffer of the OLED driver (cleared by
    \<open>clearDisplay\<close>), \<open>displayLog\<close> the frames pushed to the panel by \<open>display.display()\<close>.

  \<open>int\<close> is 16 bits on the AVR target; \<open>totalPortalsFired\<close> is a \<open>16 word\<close>. Loop
  counters and brightness values stay far inside that range and are plain integers.
  Serial logging, \<open>pinMode\<close>, text colour and the timer prescaler write are not represented.
\<close>

subsection \<open>Configuration\<close>

definition SCREEN_WIDTH :: int where "SCREEN_WIDTH = 128"

definition TOGGLE_BUTTON_PIN :: int where "TOGGLE_BUTTON_PIN = 8"
definition SHOOT_BUTTON_PIN :: int where "SHOOT_BUTTON_PIN = 7"
definition BLUE_LED_PIN :: int where "BLUE_LED_PIN = 5"
definition RED_LED_PIN :: int where "RED_LED_PIN = 6"
definition ONBOARD_LED_PIN :: int where "ONBOARD_LED_PIN = 13"

definition AUDIO_VOLUME :: int where "AUDIO_VOLUME = 25"

definition DIM_BRIGHTNESS :: int where "DIM_BRIGHTNESS = 30"
definition MAX_BRIGHTNESS :: int where "MAX_BRIGHTNESS = 255"
definition FADE_STEP :: int where "FADE_STEP = 2"
definition FADE_DELAY :: int where "FADE_DELAY = 20"

definition DEBOUNCE_DELAY :: int where "DEBOUNCE_DELAY = 50"
definition BLINK_INTERVAL :: int where "BLINK_INTERVAL = 500"
definition OLED_UPDATE_INTERVAL :: int where "OLED_UPDATE_INTERVAL = 200"
definition PULSE_DELAY :: int where "PULSE_DELAY = 15"
definition PULSE_COUNT :: int where "PULSE_COUNT = 8"
definition BRIGHTNESS_STEP :: int where "BRIGHTNESS_STEP = 20"

text \<open>\<open>enum AudioTrack\<close>: the enumerators are integers, and \<open>playAudio\<close> range-checks them.\<close>

definition SOUND_POWER_UP :: int where "SOUND_POWER_UP = 1"
definition SOUND_BLUE_PORTAL :: int where "SOUND_BLUE_PORTAL = 2"
definition SOUND_RED_PORTAL :: int where "SOUND_RED_PORTAL = 3"
definition SOUND_MODE_SWITCH :: int where "SOUND_MODE_SWITCH = 4"
definition SOUND_POWER_DOWN :: int where "SOUND_POWER_DOWN = 5"

text \<open>Logic levels: \<open>HIGH\<close> is 1, \<open>LOW\<close> is 0; the sketch stores them in \<open>bool\<close>s.\<close>

definition HIGH :: bool where "HIGH = True"
definition LOW :: bool where "LOW = False"

text \<open>The string tables. Entry 6 of \<open>DISPLAY_STRINGS\<close> is the byte sequence of the file.\<close>

definition DISPLAY_STRINGS :: "string list" where
  "DISPLAY_STRINGS =
     [''PORTAL GUN'', ''BLUE'', ''RED'', ''Status: READY'', ''Fired: '', ''PWR:'',
      [CHR 0xC3, CHR 0xA2, CHR 0xE2, CHR 0x84, CHR 0xA2, CHR 0xC2, CHR 0xAA],
      ''O'', ''@'']"

definition MODE_STRINGS :: "string list" where
  "MODE_STRINGS =
     [''MODE SWITCHING'', ''>> BLUE PORTAL <<'', ''>> RED PORTAL <<'',
      ''AUTO-SWITCH!'', ''Next: BLUE PORTAL'', ''Next: RED PORTAL'']"

definition STARTUP_STRINGS :: "string list" where
  "STARTUP_STRINGS =
     [''PORTAL GUN v3.1'', ''AUDIO: READY'', ''AUDIO: OFFLINE'',
      ''INITIALIZING...'', ''SYSTEMS ONLINE'', ''READY TO FIRE'']"

subsection \<open>State\<close>

datatype PortalMode = BLUE_MODE | RED_MODE

text \<open>
  What the sketch draws into the frame buffer: text centred on a line (the driver
  computes the column from the text bounds), text at a position with a size, text printed
  at a cursor position with the size left as it is, and a number printed at the cursor.
\<close>

datatype draw =
    TextCentered string int int
  | TextAt string int int int
  | CursorPrint string int int
  | PrintInt int

datatype audio_cmd = Volume int | Play int

record state =
  currentMode :: PortalMode
  isShooting :: bool
  audioEnabled :: bool
  totalPortalsFired :: "16 word"
  lastButtonPress :: "32 word"
  lastBlinkTime :: "32 word"
  lastOLEDUpdate :: "32 word"
  lastToggleState :: bool
  lastShootState :: bool
  onboardLEDState :: bool
  clock :: "32 word"
  pwm :: "int \<Rightarrow> int"
  pwmLog :: "(int \<times> int) list"
  dout :: "int \<Rightarrow> bool"
  audioLog :: "audio_cmd list"
  displayBuf :: "draw list"
  displayLog :: "draw list list"

text \<open>The globals as initialised at file scope, on hardware fresh out of reset.\<close>

definition power_on :: state where
  "power_on =
     \<lparr> currentMode = BLUE_MODE, isShooting = False, audioEnabled = True,
       totalPortalsFired = 0, lastButtonPress = 0, lastBlinkTime = 0, lastOLEDUpdate = 0,
       lastToggleState = HIGH, lastShootState = HIGH, onboardLEDState = False,
       clock = 0, pwm = (\<lambda>_. 0), pwmLog = [], dout = (\<lambda>_. False),
       audioLog = [], displayBuf = [], displayLog = [] \<rparr>"

subsection \<open>Hardware primitives\<close>

definition millis :: "state \<Rightarrow> 32 word" where
  "millis s = clock s"

definition delay :: "32 word \<Rightarrow> state \<Rightarrow> state" where
  "delay ms s = s\<lparr>clock := clock s + ms\<rparr>"

definition analogWrite :: "int \<Rightarrow> int \<Rightarrow> state \<Rightarrow> state" where
  "analogWrite p v s = s\<lparr>pwm := (pwm s)(p := v), pwmLog := pwmLog s @ [(p, v)]\<rparr>"

definition digitalWrite :: "int \<Rightarrow> bool \<Rightarrow> state \<Rightarrow> state" where
  "digitalWrite p l s = s\<lparr>dout := (dout s)(p := l)\<rparr>"

definition clearDisplay :: "state \<Rightarrow> state" where
  "clearDisplay s = s\<lparr>displayBuf := []\<rparr>"

definition drawOp :: "draw \<Rightarrow> state \<Rightarrow> state" where
  "drawOp d s = s\<lparr>displayBuf := displayBuf s @ [d]\<rparr>"

definition display_display :: "state \<Rightarrow> state" where
  "display_display s = s\<lparr>displayLog := displayLog s @ [displayBuf s]\<rparr>"

subsection \<open>Display helper functions\<close>

definition showCenteredText :: "string \<Rightarrow> int \<Rightarrow> int \<Rightarrow> state \<Rightarrow> state" where
  "showCenteredText text y textSize s = drawOp (TextCentered text y textSize) s"

definition showTextAt :: "string \<Rightarrow> int \<Rightarrow> int \<Rightarrow> int \<Rightarrow> state \<Rightarrow> state" where
  "showTextAt text x y textSize s = drawOp (TextAt text x y textSize) s"

text \<open>\<open>line2\<close> is \<open>None\<close> for \<open>nullptr\<close>; \<open>delayMs\<close> defaults to 1000 at the call sites.\<close>

definition displayMessage :: "string \<Rightarrow> string option \<Rightarrow> int \<Rightarrow> state \<Rightarrow> state" where
  "displayMessage line1 line2 delayMs s =
     (let s1 = clearDisplay s;
          s2 = (case line2 of
                  None \<Rightarrow> showCenteredText line1 12 1 s1
                | Some l2 \<Rightarrow> showCenteredText l2 20 1 (showCenteredText line1 4 1 s1));
          s3 = display_display s2
      in if delayMs > 0 then delay (word_of_int delayMs) s3 else s3)"

function drawPowerBars_loop :: "int \<Rightarrow> int \<Rightarrow> int \<Rightarrow> int \<Rightarrow> state \<Rightarrow> state" where
  "drawPowerBars_loop i x y count s =
     (if i < count
      then drawPowerBars_loop (i + 1) x y count (drawOp (CursorPrint ''|'' (x + i * 3) y) s)
      else s)"
  by pat_completeness auto
termination
  by (relation "measure (\<lambda>(i, x, y, count, s). nat (count - i))") auto

definition drawPowerBars :: "int \<Rightarrow> int \<Rightarrow> int \<Rightarrow> state \<Rightarrow> state" where
  "drawPowerBars x y count s = drawPowerBars_loop 0 x y count s"

subsection \<open>Audio\<close>

definition playAudio :: "int \<Rightarrow> state \<Rightarrow> state" where
  "playAudio track s =
     (if audioEnabled s \<and> track \<ge> 1 \<and> track \<le> 5
      then s\<lparr>audioLog := audioLog s @ [Play track]\<rparr>
      else s)"

subsection \<open>LED control\<close>

function fade_loop :: "int \<Rightarrow> int \<Rightarrow> int \<Rightarrow> state \<Rightarrow> state" where
  "fade_loop step fromPin toPin s =
     (if step \<le> DIM_BRIGHTNESS
      then fade_loop (step + FADE_STEP) fromPin toPin
             (delay (word_of_int FADE_DELAY)
               (analogWrite toPin step
                 (analogWrite fromPin (DIM_BRIGHTNESS - step) s)))
      else s)"
  by pat_completeness auto
termination
  by (relation "measure (\<lambda>(step, f, t, s). nat (DIM_BRIGHTNESS + 1 - step))")
     (auto simp: FADE_STEP_def)

definition fadeTransition :: "int \<Rightarrow> int \<Rightarrow> state \<Rightarrow> state" where
  "fadeTransition fromPin toPin s =
     analogWrite toPin DIM_BRIGHTNESS (analogWrite fromPin 0 (fade_loop 0 fromPin toPin s))"

definition setIdleMode :: "state \<Rightarrow> state" where
  "setIdleMode s =
     (if currentMode s = BLUE_MODE
      then digitalWrite ONBOARD_LED_PIN HIGH
             (analogWrite RED_LED_PIN 0 (analogWrite BLUE_LED_PIN DIM_BRIGHTNESS s))
      else analogWrite BLUE_LED_PIN 0 (analogWrite RED_LED_PIN DIM_BRIGHTNESS s))"

definition updateOnboardLED :: "state \<Rightarrow> state" where
  "updateOnboardLED s =
     (if currentMode s = BLUE_MODE then digitalWrite ONBOARD_LED_PIN HIGH s
      else if millis s - lastBlinkTime s \<ge> word_of_int BLINK_INTERVAL
      then (let s1 = s\<lparr>onboardLEDState := \<not> onboardLEDState s\<rparr>;
                s2 = digitalWrite ONBOARD_LED_PIN (onboardLEDState s1) s1
            in s2\<lparr>lastBlinkTime := millis s2\<rparr>)
      else s)"

function pulse_up :: "int \<Rightarrow> int \<Rightarrow> state \<Rightarrow> state" where
  "pulse_up ledPin brightness s =
     (if brightness \<le> MAX_BRIGHTNESS
      then pulse_up ledPin (brightness + BRIGHTNESS_STEP)
             (delay (word_of_int PULSE_DELAY) (analogWrite ledPin brightness s))
      else s)"
  by pat_completeness auto
termination
  by (relation "measure (\<lambda>(p, b, s). nat (MAX_BRIGHTNESS + 1 - b))")
     (auto simp: BRIGHTNESS_STEP_def)

function pulse_down :: "int \<Rightarrow> int \<Rightarrow> state \<Rightarrow> state" where
  "pulse_down ledPin brightness s =
     (if brightness \<ge> DIM_BRIGHTNESS
      then pulse_down ledPin (brightness - BRIGHTNESS_STEP)
             (delay (word_of_int PULSE_DELAY) (analogWrite ledPin brightness s))
      else s)"
  by pat_completeness auto
termination
  by (relation "measure (\<lambda>(p, b, s). nat (b + 1 - DIM_BRIGHTNESS))")
     (auto simp: BRIGHTNESS_STEP_def)

function pulse_loop :: "int \<Rightarrow> int \<Rightarrow> state \<Rightarrow> state" where
  "pulse_loop pulse ledPin s =
     (if pulse < PULSE_COUNT
      then pulse_loop (pulse + 1) ledPin
             (pulse_down ledPin MAX_BRIGHTNESS (pulse_up ledPin DIM_BRIGHTNESS s))
      else s)"
  by pat_completeness auto
termination
  by (relation "measure (\<lambda>(i, p, s). nat (PULSE_COUNT - i))") auto

definition performShootingEffect :: "int \<Rightarrow> state \<Rightarrow> state" where
  "performShootingEffect ledPin s =
     delay 100 (analogWrite ledPin MAX_BRIGHTNESS (pulse_loop 0 ledPin s))"

subsection \<open>Display functions\<close>

definition runStartupSequence :: "state \<Rightarrow> state" where
  "runStartupSequence s =
     (let s1 = displayMessage (STARTUP_STRINGS ! 0)
                 (Some (if audioEnabled s then STARTUP_STRINGS ! 1 else STARTUP_STRINGS ! 2))
                 2000 s;
          s2 = displayMessage (STARTUP_STRINGS ! 3) None 800 s1;
          s3 = displayMessage (STARTUP_STRINGS ! 4) (Some (STARTUP_STRINGS ! 5)) 1500 s2
      in if audioEnabled s3
         then delay 1200
                (display_display
                  (showTextAt ''@'' 75 8 1
                    (showTextAt ''[]'' 55 8 1
                      (showTextAt ''O'' 35 8 1
                        (clearDisplay (delay 2000 s3))))))
         else s3)"

definition updateMainDisplay :: "state \<Rightarrow> state" where
  "updateMainDisplay s =
     (if isShooting s then s
      else
        (let s1 = clearDisplay s;
             s2 = showTextAt (DISPLAY_STRINGS ! 0) 0 0 1 s1;
             s3 = showTextAt
                    (if currentMode s2 = BLUE_MODE then DISPLAY_STRINGS ! 1 else DISPLAY_STRINGS ! 2)
                    85 0 1 s2;
             s4 = showTextAt (DISPLAY_STRINGS ! 3) 0 10 1 s3;
             s5 = (if audioEnabled s4 then showTextAt (DISPLAY_STRINGS ! 6) 85 10 1 s4 else s4);
             s6 = showTextAt (DISPLAY_STRINGS ! 4) 0 20 1 s5;
             s7 = drawOp (PrintInt (sint (totalPortalsFired s6))) s6;
             s8 = showTextAt (DISPLAY_STRINGS ! 5) 70 20 1 s7;
             s9 = drawPowerBars 100 20 4 s8;
             s10 = showTextAt
                     (if currentMode s9 = BLUE_MODE then DISPLAY_STRINGS ! 7 else DISPLAY_STRINGS ! 8)
                     110 0 2 s9
         in display_display s10))"

definition updateDisplayPeriodically :: "state \<Rightarrow> state" where
  "updateDisplayPeriodically s =
     (if millis s - lastOLEDUpdate s \<ge> word_of_int OLED_UPDATE_INTERVAL
      then (let s1 = updateMainDisplay s in s1\<lparr>lastOLEDUpdate := millis s1\<rparr>)
      else s)"

subsection \<open>Mode switching and shooting\<close>

definition togglePortalMode :: "state \<Rightarrow> state" where
  "togglePortalMode s =
     (let s1 = s\<lparr>currentMode := (if currentMode s = BLUE_MODE then RED_MODE else BLUE_MODE)\<rparr>;
          s2 = playAudio SOUND_MODE_SWITCH s1;
          s3 = (if currentMode s2 = BLUE_MODE
                then fadeTransition RED_LED_PIN BLUE_LED_PIN
                       (displayMessage (MODE_STRINGS ! 0) (Some (MODE_STRINGS ! 1)) 1000
                         (digitalWrite ONBOARD_LED_PIN HIGH s2))
                else fadeTransition BLUE_LED_PIN RED_LED_PIN
                       (displayMessage (MODE_STRINGS ! 0) (Some (MODE_STRINGS ! 2)) 1000
                         (digitalWrite ONBOARD_LED_PIN HIGH
                           (s2\<lparr>lastBlinkTime := millis s2, onboardLEDState := True\<rparr>))))
      in updateMainDisplay s3)"

definition autoSwitchMode :: "state \<Rightarrow> state" where
  "autoSwitchMode s =
     (let s1 = s\<lparr>currentMode := (if currentMode s = BLUE_MODE then RED_MODE else BLUE_MODE)\<rparr>
      in if currentMode s1 = BLUE_MODE
         then fadeTransition RED_LED_PIN BLUE_LED_PIN
                (displayMessage (MODE_STRINGS ! 3) (Some (MODE_STRINGS ! 4)) 1500
                  (digitalWrite ONBOARD_LED_PIN HIGH s1))
         else fadeTransition BLUE_LED_PIN RED_LED_PIN
                (displayMessage (MODE_STRINGS ! 3) (Some (MODE_STRINGS ! 5)) 1500
                  (digitalWrite ONBOARD_LED_PIN HIGH
                    (s1\<lparr>lastBlinkTime := millis s1, onboardLEDState := True\<rparr>))))"

definition shootPortal :: "state \<Rightarrow> state" where
  "shootPortal s =
     (let s1 = s\<lparr>isShooting := True\<rparr>;
          s2 = s1\<lparr>totalPortalsFired := totalPortalsFired s1 + 1\<rparr>;
          activePin = (if currentMode s2 = BLUE_MODE then BLUE_LED_PIN else RED_LED_PIN);
          soundTrack = (if currentMode s2 = BLUE_MODE then SOUND_BLUE_PORTAL else SOUND_RED_PORTAL);
          s3 = playAudio soundTrack s2;
          s4 = performShootingEffect activePin s3;
          s5 = autoSwitchMode s4;
          s6 = s5\<lparr>isShooting := False\<rparr>
      in updateMainDisplay s6)"

subsection \<open>Button handling and the main program\<close>

text \<open>
  \<open>handleButtons\<close> takes the two levels that its \<open>digitalRead\<close> calls return. The debounce
  test is evaluated once, on the state at entry; the second \<open>if\<close> runs on the state the
  first one leaves.
\<close>

definition handleButtons :: "bool \<Rightarrow> bool \<Rightarrow> state \<Rightarrow> state" where
  "handleButtons toggleLevel shootLevel s =
     (let togglePressed = (toggleLevel = LOW);
          shootPressed = (shootLevel = LOW);
          s3 = (if millis s - lastButtonPress s > word_of_int DEBOUNCE_DELAY
                then
                  (let s1 = (if togglePressed \<and> lastToggleState s = HIGH
                             then (let t = togglePortalMode s in t\<lparr>lastButtonPress := millis t\<rparr>)
                             else s);
                       s2 = (if shootPressed \<and> lastShootState s1 = HIGH \<and> \<not> isShooting s1
                             then (let t = shootPortal s1 in t\<lparr>lastButtonPress := millis t\<rparr>)
                             else s1)
                   in s2)
                else s)
      in s3\<lparr>lastToggleState := (if togglePressed then LOW else HIGH),
             lastShootState := (if shootPressed then LOW else HIGH)\<rparr>)"

definition loop :: "bool \<Rightarrow> bool \<Rightarrow> state \<Rightarrow> state" where
  "loop toggleLevel shootLevel s =
     delay 10 (updateDisplayPeriodically (updateOnboardLED (handleButtons toggleLevel shootLevel s)))"

text \<open>\<open>for(;;);\<close> never returns: as a computation in the option monad it is \<open>None\<close>.\<close>

partial_function (option) halt_forever :: "state \<Rightarrow> state option" where
  "halt_forever s = halt_forever s"

text \<open>
  \<open>setup()\<close>, given what \<open>display.begin\<close> and \<open>audioPlayer.begin\<close> return. The result is
  \<open>None\<close> when \<open>setup()\<close> never returns.
\<close>

definition setup_fn :: "bool \<Rightarrow> bool \<Rightarrow> state \<Rightarrow> state option" where
  "setup_fn displayBegin audioBegin s =
     (if \<not> displayBegin then halt_forever s
      else
        (let s1 = (if \<not> audioBegin then s\<lparr>audioEnabled := False\<rparr>
                   else playAudio SOUND_POWER_UP
                          (delay 1000 (s\<lparr>audioLog := audioLog s @ [Volume AUDIO_VOLUME]\<rparr>)));
             s2 = runStartupSequence s1;
             s3 = setIdleMode s2
         in Some (updateMainDisplay s3)))"

text \<open>
  The Arduino core's \<open>main\<close>: \<open>setup()\<close>, then \<open>loop()\<close> again and again. \<open>run_loop\<close> runs
  one iteration per element of a list of button readings (toggle line, shoot line).
\<close>

fun run_loop :: "(bool \<times> bool) list \<Rightarrow> state \<Rightarrow> state" where
  "run_loop [] s = s"
| "run_loop (r # rs) s = run_loop rs (loop (fst r) (snd r) s)"

definition arduino_main :: "bool \<Rightarrow> bool \<Rightarrow> (bool \<times> bool) list \<Rightarrow> state option" where
  "arduino_main displayBegin audioBegin readings =
     (case setup_fn displayBegin audioBegin power_on of
        None \<Rightarrow> None
      | Some s \<Rightarrow> Some (run_loop readings s))"

subsection \<open>Observations used to state the properties\<close>

text \<open>
  These functions are not part of the sketch; they read the state and the logs.
  \<open>opposite\<close>, \<open>led_pin\<close> and \<open>fire_track\<close> name the three mode-dependent choices the
  sketch writes as conditional expressions.
\<close>

definition opposite :: "PortalMode \<Rightarrow> PortalMode" where
  "opposite m = (if m = BLUE_MODE then RED_MODE else BLUE_MODE)"

definition led_pin :: "PortalMode \<Rightarrow> int" where
  "led_pin m = (if m = BLUE_MODE then BLUE_LED_PIN else RED_LED_PIN)"

definition fire_track :: "PortalMode \<Rightarrow> int" where
  "fire_track m = (if m = BLUE_MODE then SOUND_BLUE_PORTAL else SOUND_RED_PORTAL)"

text \<open>Idle: the channel of the current mode at dim brightness, the other one off.\<close>

definition idle_leds :: "state \<Rightarrow> bool" where
  "idle_leds s =
     (pwm s (led_pin (currentMode s)) = DIM_BRIGHTNESS \<and>
      pwm s (led_pin (opposite (currentMode s))) = 0)"

text \<open>
  Only \<open>togglePortalMode\<close> shows the "MODE SWITCHING" screen and only \<open>autoSwitchMode\<close>,
  called by \<open>shootPortal\<close>, shows the "AUTO-SWITCH!" screen, once per call. Counting these
  frames counts the toggle and shoot actions that were carried out.
\<close>

definition toggle_actions :: "state \<Rightarrow> nat" where
  "toggle_actions s =
     length (filter (\<lambda>frame. TextCentered (MODE_STRINGS ! 0) 4 1 \<in> set frame) (displayLog s))"

definition shoot_actions :: "state \<Rightarrow> nat" where
  "shoot_actions s =
     length (filter (\<lambda>frame. TextCentered (MODE_STRINGS ! 3) 4 1 \<in> set frame) (displayLog s))"

text \<open>
  The duty cycles of all pins after each write of a list of \<open>analogWrite\<close> calls, starting
  from the duty cycles \<open>h\<close>; and the writes a run from \<open>s\<close> to \<open>s'\<close> has added to the log.
\<close>

definition apply_write :: "int \<times> int \<Rightarrow> (int \<Rightarrow> int) \<Rightarrow> int \<Rightarrow> int" where
  "apply_write w h = h(fst w := snd w)"

fun duty_history :: "(int \<Rightarrow> int) \<Rightarrow> (int \<times> int) list \<Rightarrow> (int \<Rightarrow> int) list" where
  "duty_history h [] = []"
| "duty_history h (w # ws) = apply_write w h # duty_history (apply_write w h) ws"

definition new_writes :: "state \<Rightarrow> state \<Rightarrow> (int \<times> int) list" where
  "new_writes s s' = drop (length (pwmLog s)) (pwmLog s')"

text \<open>
  Everything in the state except the audio flag, the audio log and the contents of the
  display frames (of which only the number and the kinds of screens are kept).
\<close>

definition audio_blind ::
  "state \<Rightarrow>
     (PortalMode \<times> bool \<times> 16 word \<times> 32 word \<times> 32 word \<times> 32 word \<times> bool \<times> bool \<times> bool) \<times>
     (32 word \<times> (int \<Rightarrow> int) \<times> (int \<times> int) list \<times> (int \<Rightarrow> bool) \<times> nat \<times> nat \<times> nat)" where
  "audio_blind s =
     ((currentMode s, isShooting s, totalPortalsFired s, lastButtonPress s, lastBlinkTime s,
       lastOLEDUpdate s, lastToggleState s, lastShootState s, onboardLEDState s),
      (clock s, pwm s, pwmLog s, dout s, toggle_actions s, shoot_actions s,
       length (displayLog s)))"

text \<open>
  What \<open>setup()\<close> has done when it stops: it either returns, or it hangs in \<open>for(;;);\<close>
  in the state it had reached. \<open>setup_outcome\<close> is \<open>setup()\<close> once more, keeping that
  state; \<open>arduino_outcome\<close> is the Arduino core's \<open>main\<close> on top of it: once \<open>setup()\<close>
  hangs, the machine stays in that state whatever the buttons do.
\<close>

datatype outcome = Returned state | Hung state

definition setup_outcome :: "bool \<Rightarrow> bool \<Rightarrow> state \<Rightarrow> outcome" where
  "setup_outcome displayBegin audioBegin s =
     (if \<not> displayBegin then Hung s
      else
        (let s1 = (if \<not> audioBegin then s\<lparr>audioEnabled := False\<rparr>
                   else playAudio SOUND_POWER_UP
                          (delay 1000 (s\<lparr>audioLog := audioLog s @ [Volume AUDIO_VOLUME]\<rparr>)));
             s2 = runStartupSequence s1;
             s3 = setIdleMode s2
         in Returned (updateMainDisplay s3)))"

definition arduino_outcome :: "bool \<Rightarrow> bool \<Rightarrow> (bool \<times> bool) list \<Rightarrow> outcome" where
  "arduino_outcome displayBegin audioBegin readings =
     (case setup_outcome displayBegin audioBegin power_on of
        Hung s \<Rightarrow> Hung s
      | Returned s \<Rightarrow> Returned (run_loop readings s))"






section \<open>Auxiliary lemmas\<close>

text \<open>
  The loop equations are unfolded only where a loop is run on concrete bounds.
\<close>

declare fade_loop.simps [simp del] pulse_up.simps [simp del] pulse_down.simps [simp del]
  pulse_loop.simps [simp del] drawPowerBars_loop.simps [simp del]

lemmas config_defs = DIM_BRIGHTNESS_def MAX_BRIGHTNESS_def FADE_STEP_def FADE_DELAY_def
  PULSE_DELAY_def PULSE_COUNT_def BRIGHTNESS_STEP_def DEBOUNCE_DELAY_def BLINK_INTERVAL_def
  OLED_UPDATE_INTERVAL_def AUDIO_VOLUME_def
lemmas pin_defs = BLUE_LED_PIN_def RED_LED_PIN_def ONBOARD_LED_PIN_def
lemmas sound_defs = SOUND_POWER_UP_def SOUND_BLUE_PORTAL_def SOUND_RED_PORTAL_def SOUND_MODE_SWITCH_def
lemmas string_defs = DISPLAY_STRINGS_def MODE_STRINGS_def STARTUP_STRINGS_def
lemmas prim_defs = millis_def delay_def analogWrite_def digitalWrite_def clearDisplay_def
  drawOp_def display_display_def showCenteredText_def showTextAt_def displayMessage_def
  playAudio_def HIGH_def LOW_def

lemma fadeTransition_eq:
  "fadeTransition f t s =
     s\<lparr>clock := clock s + 320, pwm := (pwm s)(f := 0, t := 30),
       pwmLog := pwmLog s @
         [(f, 30), (t, 0), (f, 28), (t, 2), (f, 26), (t, 4), (f, 24), (t, 6),
          (f, 22), (t, 8), (f, 20), (t, 10), (f, 18), (t, 12), (f, 16), (t, 14),
          (f, 14), (t, 16), (f, 12), (t, 18), (f, 10), (t, 20), (f, 8), (t, 22),
          (f, 6), (t, 24), (f, 4), (t, 26), (f, 2), (t, 28), (f, 0), (t, 30),
          (f, 0), (t, 30)]\<rparr>"
  by (simp add: fadeTransition_def fade_loop.simps analogWrite_def delay_def config_defs)

lemma pulse_cycle_eq:
  "pulse_down p 255 (pulse_up p 30 s) =
     s\<lparr>clock := clock s + 360, pwm := (pwm s)(p := 35),
       pwmLog := pwmLog s @
         map (Pair p) [30, 50, 70, 90, 110, 130, 150, 170, 190, 210, 230, 250,
                       255, 235, 215, 195, 175, 155, 135, 115, 95, 75, 55, 35]\<rparr>"
  by (simp add: pulse_up.simps pulse_down.simps analogWrite_def delay_def config_defs)

lemma performShootingEffect_eq:
  "performShootingEffect p s =
     s\<lparr>clock := clock s + 2980, pwm := (pwm s)(p := 255),
       pwmLog := pwmLog s @
         concat (replicate 8 (map (Pair p)
           [30, 50, 70, 90, 110, 130, 150, 170, 190, 210, 230, 250,
            255, 235, 215, 195, 175, 155, 135, 115, 95, 75, 55, 35])) @ [(p, 255)]\<rparr>"
  by (simp add: performShootingEffect_def pulse_loop.simps pulse_cycle_eq analogWrite_def
        delay_def config_defs eval_nat_numeral)

lemma updateMainDisplay_fields [simp]:
  "currentMode (updateMainDisplay s) = currentMode s"
  "isShooting (updateMainDisplay s) = isShooting s"
  "audioEnabled (updateMainDisplay s) = audioEnabled s"
  "totalPortalsFired (updateMainDisplay s) = totalPortalsFired s"
  "lastButtonPress (updateMainDisplay s) = lastButtonPress s"
  "lastBlinkTime (updateMainDisplay s) = lastBlinkTime s"
  "lastOLEDUpdate (updateMainDisplay s) = lastOLEDUpdate s"
  "lastToggleState (updateMainDisplay s) = lastToggleState s"
  "lastShootState (updateMainDisplay s) = lastShootState s"
  "onboardLEDState (updateMainDisplay s) = onboardLEDState s"
  "clock (updateMainDisplay s) = clock s"
  "pwm (updateMainDisplay s) = pwm s"
  "pwmLog (updateMainDisplay s) = pwmLog s"
  "dout (updateMainDisplay s) = dout s"
  "audioLog (updateMainDisplay s) = audioLog s"
  by (simp_all add: updateMainDisplay_def prim_defs drawPowerBars_def Let_def
        drawPowerBars_loop.simps)

lemma updateMainDisplay_shooting [simp]: "isShooting s \<Longrightarrow> updateMainDisplay s = s"
  by (simp add: updateMainDisplay_def)

lemma updateMainDisplay_displayLog:
  "displayLog (updateMainDisplay s) =
     (if isShooting s then displayLog s else displayLog s @ [displayBuf (updateMainDisplay s)])"
  by (simp add: updateMainDisplay_def prim_defs drawPowerBars_def Let_def
        drawPowerBars_loop.simps)

lemma updateMainDisplay_no_centered:
  "\<not> isShooting s \<Longrightarrow> TextCentered a b c \<notin> set (displayBuf (updateMainDisplay s))"
  by (simp add: updateMainDisplay_def prim_defs drawPowerBars_def Let_def
        drawPowerBars_loop.simps)


lemma togglePortalMode_fields [simp]:
  "currentMode (togglePortalMode s) = (if currentMode s = BLUE_MODE then RED_MODE else BLUE_MODE)"
  "isShooting (togglePortalMode s) = isShooting s"
  "audioEnabled (togglePortalMode s) = audioEnabled s"
  "totalPortalsFired (togglePortalMode s) = totalPortalsFired s"
  "lastButtonPress (togglePortalMode s) = lastButtonPress s"
  "lastOLEDUpdate (togglePortalMode s) = lastOLEDUpdate s"
  "lastToggleState (togglePortalMode s) = lastToggleState s"
  "lastShootState (togglePortalMode s) = lastShootState s"
  "clock (togglePortalMode s) = clock s + 1320"
  "audioLog (togglePortalMode s) =
     (if audioEnabled s then audioLog s @ [Play SOUND_MODE_SWITCH] else audioLog s)"
  "lastBlinkTime (togglePortalMode s) =
     (if currentMode s = BLUE_MODE then clock s else lastBlinkTime s)"
  "onboardLEDState (togglePortalMode s) = (currentMode s = BLUE_MODE \<or> onboardLEDState s)"
  "dout (togglePortalMode s) = (dout s)(ONBOARD_LED_PIN := HIGH)"
  "pwm (togglePortalMode s) = pwm (fadeTransition (led_pin (currentMode s)) (led_pin (opposite (currentMode s))) s)"
  "pwmLog (togglePortalMode s) = pwmLog (fadeTransition (led_pin (currentMode s)) (led_pin (opposite (currentMode s))) s)"
  by (simp_all add: togglePortalMode_def Let_def fadeTransition_eq prim_defs sound_defs
        led_pin_def opposite_def)

lemma togglePortalMode_displayLog:
  "displayLog (togglePortalMode s) =
     displayLog s @
     [[TextCentered (MODE_STRINGS ! 0) 4 1,
       TextCentered (if currentMode s = BLUE_MODE then MODE_STRINGS ! 2 else MODE_STRINGS ! 1) 20 1]] @
     (if isShooting s then [] else [displayBuf (togglePortalMode s)])"
  by (simp add: togglePortalMode_def Let_def fadeTransition_eq prim_defs
        updateMainDisplay_displayLog)

lemma togglePortalMode_no_centered:
  "\<not> isShooting s \<Longrightarrow> TextCentered a b c \<notin> set (displayBuf (togglePortalMode s))"
  by (simp add: togglePortalMode_def Let_def fadeTransition_eq prim_defs
        updateMainDisplay_no_centered)

lemma shootPortal_fields [simp]:
  "currentMode (shootPortal s) = (if currentMode s = BLUE_MODE then RED_MODE else BLUE_MODE)"
  "isShooting (shootPortal s) = False"
  "audioEnabled (shootPortal s) = audioEnabled s"
  "totalPortalsFired (shootPortal s) = totalPortalsFired s + 1"
  "lastButtonPress (shootPortal s) = lastButtonPress s"
  "lastOLEDUpdate (shootPortal s) = lastOLEDUpdate s"
  "lastToggleState (shootPortal s) = lastToggleState s"
  "lastShootState (shootPortal s) = lastShootState s"
  "clock (shootPortal s) = clock s + 4800"
  "audioLog (shootPortal s) =
     (if audioEnabled s
      then audioLog s @
             [Play (if currentMode s = BLUE_MODE then SOUND_BLUE_PORTAL else SOUND_RED_PORTAL)]
      else audioLog s)"
  "lastBlinkTime (shootPortal s) =
     (if currentMode s = BLUE_MODE then clock s + 2980 else lastBlinkTime s)"
  "onboardLEDState (shootPortal s) = (currentMode s = BLUE_MODE \<or> onboardLEDState s)"
  "dout (shootPortal s) = (dout s)(ONBOARD_LED_PIN := HIGH)"
  "pwm (shootPortal s) = pwm (fadeTransition (led_pin (currentMode s)) (led_pin (opposite (currentMode s))) s)"
  "pwmLog (shootPortal s) =
     pwmLog (fadeTransition (led_pin (currentMode s)) (led_pin (opposite (currentMode s))) (performShootingEffect (led_pin (currentMode s)) s))"
  by (simp_all add: shootPortal_def autoSwitchMode_def Let_def fadeTransition_eq
        performShootingEffect_eq prim_defs sound_defs led_pin_def opposite_def)

lemma shootPortal_displayLog:
  "displayLog (shootPortal s) =
     displayLog s @
     [[TextCentered (MODE_STRINGS ! 3) 4 1,
       TextCentered (if currentMode s = BLUE_MODE then MODE_STRINGS ! 5 else MODE_STRINGS ! 4) 20 1],
      displayBuf (shootPortal s)]"
  by (simp add: shootPortal_def autoSwitchMode_def Let_def fadeTransition_eq
        performShootingEffect_eq prim_defs updateMainDisplay_displayLog)

lemma shootPortal_no_centered:
  "TextCentered a b c \<notin> set (displayBuf (shootPortal s))"
  by (simp add: shootPortal_def autoSwitchMode_def Let_def fadeTransition_eq
        performShootingEffect_eq prim_defs updateMainDisplay_no_centered)


lemma updateMainDisplay_actions [simp]:
  "toggle_actions (updateMainDisplay s) = toggle_actions s"
  "shoot_actions (updateMainDisplay s) = shoot_actions s"
  by (simp_all add: toggle_actions_def shoot_actions_def updateMainDisplay_displayLog
        updateMainDisplay_no_centered)

lemma togglePortalMode_actions [simp]:
  "toggle_actions (togglePortalMode s) = toggle_actions s + 1"
  "shoot_actions (togglePortalMode s) = shoot_actions s"
  by (simp_all add: toggle_actions_def shoot_actions_def togglePortalMode_displayLog
        togglePortalMode_no_centered MODE_STRINGS_def)

lemma shootPortal_actions [simp]:
  "toggle_actions (shootPortal s) = toggle_actions s"
  "shoot_actions (shootPortal s) = shoot_actions s + 1"
  by (simp_all add: toggle_actions_def shoot_actions_def shootPortal_displayLog
        shootPortal_no_centered MODE_STRINGS_def)

lemma actions_update [simp]:
  "toggle_actions (s\<lparr>lastButtonPress := a\<rparr>) = toggle_actions s"
  "shoot_actions (s\<lparr>lastButtonPress := a\<rparr>) = shoot_actions s"
  "toggle_actions (s\<lparr>lastToggleState := b\<rparr>) = toggle_actions s"
  "shoot_actions (s\<lparr>lastToggleState := b\<rparr>) = shoot_actions s"
  "toggle_actions (s\<lparr>lastShootState := b\<rparr>) = toggle_actions s"
  "shoot_actions (s\<lparr>lastShootState := b\<rparr>) = shoot_actions s"
  "toggle_actions (s\<lparr>lastOLEDUpdate := a\<rparr>) = toggle_actions s"
  "shoot_actions (s\<lparr>lastOLEDUpdate := a\<rparr>) = shoot_actions s"
  "toggle_actions (s\<lparr>clock := a\<rparr>) = toggle_actions s"
  "shoot_actions (s\<lparr>clock := a\<rparr>) = shoot_actions s"
  by (simp_all add: toggle_actions_def shoot_actions_def)

lemma handleButtons_closed:
  "millis s - lastButtonPress s \<le> word_of_int DEBOUNCE_DELAY \<Longrightarrow>
   handleButtons tg sh s =
     s\<lparr>lastToggleState := (if tg = LOW then LOW else HIGH),
       lastShootState := (if sh = LOW then LOW else HIGH)\<rparr>"
  by (simp add: handleButtons_def Let_def not_less [symmetric])

lemma handleButtons_fields [simp]:
  "lastToggleState (handleButtons tg sh s) = (if tg = LOW then LOW else HIGH)"
  "lastShootState (handleButtons tg sh s) = (if sh = LOW then LOW else HIGH)"
  "audioEnabled (handleButtons tg sh s) = audioEnabled s"
  "lastOLEDUpdate (handleButtons tg sh s) = lastOLEDUpdate s"
  by (simp_all add: handleButtons_def Let_def)

lemma handleButtons_not_shooting [simp]:
  "\<not> isShooting s \<Longrightarrow> \<not> isShooting (handleButtons tg sh s)"
  by (simp add: handleButtons_def Let_def)

lemma updateOnboardLED_fields [simp]:
  "currentMode (updateOnboardLED s) = currentMode s"
  "isShooting (updateOnboardLED s) = isShooting s"
  "audioEnabled (updateOnboardLED s) = audioEnabled s"
  "totalPortalsFired (updateOnboardLED s) = totalPortalsFired s"
  "lastButtonPress (updateOnboardLED s) = lastButtonPress s"
  "lastOLEDUpdate (updateOnboardLED s) = lastOLEDUpdate s"
  "lastToggleState (updateOnboardLED s) = lastToggleState s"
  "lastShootState (updateOnboardLED s) = lastShootState s"
  "clock (updateOnboardLED s) = clock s"
  "pwm (updateOnboardLED s) = pwm s"
  "pwmLog (updateOnboardLED s) = pwmLog s"
  "audioLog (updateOnboardLED s) = audioLog s"
  "displayBuf (updateOnboardLED s) = displayBuf s"
  "displayLog (updateOnboardLED s) = displayLog s"
  "toggle_actions (updateOnboardLED s) = toggle_actions s"
  "shoot_actions (updateOnboardLED s) = shoot_actions s"
  by (simp_all add: updateOnboardLED_def Let_def prim_defs toggle_actions_def shoot_actions_def)

lemma updateDisplayPeriodically_fields [simp]:
  "currentMode (updateDisplayPeriodically s) = currentMode s"
  "isShooting (updateDisplayPeriodically s) = isShooting s"
  "audioEnabled (updateDisplayPeriodically s) = audioEnabled s"
  "totalPortalsFired (updateDisplayPeriodically s) = totalPortalsFired s"
  "lastButtonPress (updateDisplayPeriodically s) = lastButtonPress s"
  "lastBlinkTime (updateDisplayPeriodically s) = lastBlinkTime s"
  "lastToggleState (updateDisplayPeriodically s) = lastToggleState s"
  "lastShootState (updateDisplayPeriodically s) = lastShootState s"
  "onboardLEDState (updateDisplayPeriodically s) = onboardLEDState s"
  "clock (updateDisplayPeriodically s) = clock s"
  "pwm (updateDisplayPeriodically s) = pwm s"
  "pwmLog (updateDisplayPeriodically s) = pwmLog s"
  "dout (updateDisplayPeriodically s) = dout s"
  "audioLog (updateDisplayPeriodically s) = audioLog s"
  "toggle_actions (updateDisplayPeriodically s) = toggle_actions s"
  "shoot_actions (updateDisplayPeriodically s) = shoot_actions s"
  by (simp_all add: updateDisplayPeriodically_def Let_def)

lemma loop_fields [simp]:
  "currentMode (loop tg sh s) = currentMode (handleButtons tg sh s)"
  "isShooting (loop tg sh s) = isShooting (handleButtons tg sh s)"
  "audioEnabled (loop tg sh s) = audioEnabled s"
  "totalPortalsFired (loop tg sh s) = totalPortalsFired (handleButtons tg sh s)"
  "lastButtonPress (loop tg sh s) = lastButtonPress (handleButtons tg sh s)"
  "lastToggleState (loop tg sh s) = (if tg = LOW then LOW else HIGH)"
  "lastShootState (loop tg sh s) = (if sh = LOW then LOW else HIGH)"
  "clock (loop tg sh s) = clock (handleButtons tg sh s) + 10"
  "pwm (loop tg sh s) = pwm (handleButtons tg sh s)"
  "pwmLog (loop tg sh s) = pwmLog (handleButtons tg sh s)"
  "audioLog (loop tg sh s) = audioLog (handleButtons tg sh s)"
  "toggle_actions (loop tg sh s) = toggle_actions (handleButtons tg sh s)"
  "shoot_actions (loop tg sh s) = shoot_actions (handleButtons tg sh s)"
  by (simp_all add: loop_def delay_def)

lemma not_blue_iff: "m \<noteq> BLUE_MODE \<longleftrightarrow> m = RED_MODE"
  by (cases m) simp_all

lemma toggle_funpow_mode:
  "currentMode ((togglePortalMode ^^ n) s) =
     (if even n then currentMode s else opposite (currentMode s))"
  by (induction n) (auto simp: opposite_def not_blue_iff)

lemma halt_forever_None: "halt_forever s = None"
proof (cases "halt_forever s")
  case None
  then show ?thesis .
next
  case (Some y)
  have False
    by (rule halt_forever.raw_induct [where P = "\<lambda>_ _. False", OF _ Some]) blast
  then show ?thesis ..
qed

subsection \<open>The duty cycles during and after the LED routines\<close>

lemma fade_log:
  "pwmLog (fadeTransition f t s) =
     pwmLog s @
     concat (map (\<lambda>step. [(f, DIM_BRIGHTNESS - step), (t, step)])
               [0, 2, 4, 6, 8, 10, 12, 14, 16, 18, 20, 22, 24, 26, 28, 30]) @
     [(f, 0), (t, DIM_BRIGHTNESS)]"
  by (simp add: fadeTransition_eq config_defs)

lemma fade_history:
  assumes "f \<noteq> t"
  shows "map (\<lambda>h. (h f, h t)) (duty_history (pwm s) (new_writes s (fadeTransition f t s))) =
           [(DIM_BRIGHTNESS, pwm s t), (DIM_BRIGHTNESS, 0)] @
           concat (map (\<lambda>step. [(DIM_BRIGHTNESS - step, step - FADE_STEP),
                                  (DIM_BRIGHTNESS - step, step)])
                     [2, 4, 6, 8, 10, 12, 14, 16, 18, 20, 22, 24, 26, 28, 30]) @
           [(0, DIM_BRIGHTNESS), (0, DIM_BRIGHTNESS)]"
  using assms by (simp add: fadeTransition_eq config_defs new_writes_def apply_write_def)

lemma fade_never_both:
  assumes "f \<noteq> t" "pwm s t < DIM_BRIGHTNESS" 
  shows "\<forall>h \<in> set (duty_history (pwm s) (new_writes s (fadeTransition f t s))).
           \<not> (DIM_BRIGHTNESS \<le> h f \<and> DIM_BRIGHTNESS \<le> h t)"
  using assms by (simp add: fadeTransition_eq config_defs new_writes_def apply_write_def)

lemma handleButtons_idle:
  assumes "idle_leds s"
  shows "idle_leds (handleButtons tg sh s)"
  using assms
  by (cases "currentMode s")
     (simp_all add: handleButtons_def Let_def idle_leds_def led_pin_def opposite_def 
         fadeTransition_eq pin_defs config_defs)

lemma handleButtons_never_both:
  assumes "idle_leds s"
  shows "\<forall>h \<in> set (duty_history (pwm s) (new_writes s (handleButtons tg sh s))).
           \<not> (h BLUE_LED_PIN = DIM_BRIGHTNESS \<and> h RED_LED_PIN = DIM_BRIGHTNESS)"
  using assms
  by (cases "currentMode s")
     (simp_all add: handleButtons_def Let_def idle_leds_def led_pin_def opposite_def new_writes_def fadeTransition_eq
        performShootingEffect_eq config_defs pin_defs eval_nat_numeral apply_write_def)

lemma duty_history_append:
  "duty_history h (xs @ ys) =
     duty_history h xs @ duty_history (fold apply_write xs h) ys"
  by (induction xs arbitrary: h) simp_all

lemma handleButtons_log_prefix:
  "pwmLog (handleButtons tg sh s) = pwmLog s @ new_writes s (handleButtons tg sh s)"
  by (simp add: handleButtons_def Let_def new_writes_def fadeTransition_eq
        performShootingEffect_eq)

lemma handleButtons_pwm_fold:
  "pwm (handleButtons tg sh s) =
     fold apply_write (new_writes s (handleButtons tg sh s)) (pwm s)"
  by (cases "currentMode s")
     (simp_all add: handleButtons_def Let_def new_writes_def fadeTransition_eq
        performShootingEffect_eq led_pin_def opposite_def pin_defs eval_nat_numeral
        apply_write_def)

lemma loop_new_writes [simp]: "new_writes s (loop tg sh s) = new_writes s (handleButtons tg sh s)"
  by (simp add: new_writes_def)

lemma loop_idle: "idle_leds s \<Longrightarrow> idle_leds (loop tg sh s)"
  using handleButtons_idle [of s tg sh] by (simp add: idle_leds_def)

lemma run_loop_leds:
  assumes "idle_leds s"
    and "pwm s = fold apply_write (pwmLog s) h0"
    and "\<forall>h \<in> set (duty_history h0 (pwmLog s)).
           \<not> (h BLUE_LED_PIN = DIM_BRIGHTNESS \<and> h RED_LED_PIN = DIM_BRIGHTNESS)"
  shows "idle_leds (run_loop rs s) \<and>
         (\<forall>h \<in> set (duty_history h0 (pwmLog (run_loop rs s))).
            \<not> (h BLUE_LED_PIN = DIM_BRIGHTNESS \<and> h RED_LED_PIN = DIM_BRIGHTNESS))"
  using assms
proof (induction rs arbitrary: s)
  case Nil
  then show ?case by simp
next
  case (Cons r rs)
  let ?s' = "loop (fst r) (snd r) s"
  let ?ws = "new_writes s (handleButtons (fst r) (snd r) s)"
  have log: "pwmLog ?s' = pwmLog s @ ?ws"
    using handleButtons_log_prefix [of "fst r" "snd r" s] by simp
  have idle: "idle_leds ?s'"
    using Cons.prems(1) by (rule loop_idle)
  have "pwm ?s' = fold apply_write ?ws (pwm s)"
    using handleButtons_pwm_fold [of "fst r" "snd r" s] by simp
  also have "\<dots> = fold apply_write (pwmLog s @ ?ws) h0"
    by (simp only: Cons.prems(2) fold_append o_apply)
  finally have fold: "pwm ?s' = fold apply_write (pwmLog ?s') h0"
    by (simp only: log)
  have hist: "\<forall>h \<in> set (duty_history h0 (pwmLog ?s')).
           \<not> (h BLUE_LED_PIN = DIM_BRIGHTNESS \<and> h RED_LED_PIN = DIM_BRIGHTNESS)"
    using Cons.prems(3) handleButtons_never_both [OF Cons.prems(1), of "fst r" "snd r"]
    by (simp only: log duty_history_append Cons.prems(2) [symmetric] set_append ball_Un)
  show ?case
    using Cons.IH [OF idle fold hist] by simp
qed

lemma runStartupSequence_fields [simp]:
  "currentMode (runStartupSequence s) = currentMode s"
  "isShooting (runStartupSequence s) = isShooting s"
  "audioEnabled (runStartupSequence s) = audioEnabled s"
  "totalPortalsFired (runStartupSequence s) = totalPortalsFired s"
  "lastButtonPress (runStartupSequence s) = lastButtonPress s"
  "lastBlinkTime (runStartupSequence s) = lastBlinkTime s"
  "lastOLEDUpdate (runStartupSequence s) = lastOLEDUpdate s"
  "lastToggleState (runStartupSequence s) = lastToggleState s"
  "lastShootState (runStartupSequence s) = lastShootState s"
  "onboardLEDState (runStartupSequence s) = onboardLEDState s"
  "clock (runStartupSequence s) = clock s + (if audioEnabled s then 7500 else 4300)"
  "pwm (runStartupSequence s) = pwm s"
  "pwmLog (runStartupSequence s) = pwmLog s"
  "dout (runStartupSequence s) = dout s"
  "audioLog (runStartupSequence s) = audioLog s"
  by (simp_all add: runStartupSequence_def Let_def prim_defs)

lemma runStartupSequence_displayLog:
  "displayLog (runStartupSequence s) =
     displayLog s @
     [[TextCentered (STARTUP_STRINGS ! 0) 4 1,
       TextCentered (if audioEnabled s then STARTUP_STRINGS ! 1 else STARTUP_STRINGS ! 2) 20 1],
      [TextCentered (STARTUP_STRINGS ! 3) 12 1],
      [TextCentered (STARTUP_STRINGS ! 4) 4 1, TextCentered (STARTUP_STRINGS ! 5) 20 1]] @
     (if audioEnabled s
      then [[TextAt ''O'' 35 8 1, TextAt ''[]'' 55 8 1, TextAt ''@'' 75 8 1]] else [])"
  by (simp add: runStartupSequence_def Let_def prim_defs)

lemma setIdleMode_fields [simp]:
  "currentMode (setIdleMode s) = currentMode s"
  "isShooting (setIdleMode s) = isShooting s"
  "audioEnabled (setIdleMode s) = audioEnabled s"
  "totalPortalsFired (setIdleMode s) = totalPortalsFired s"
  "lastButtonPress (setIdleMode s) = lastButtonPress s"
  "lastBlinkTime (setIdleMode s) = lastBlinkTime s"
  "lastOLEDUpdate (setIdleMode s) = lastOLEDUpdate s"
  "lastToggleState (setIdleMode s) = lastToggleState s"
  "lastShootState (setIdleMode s) = lastShootState s"
  "onboardLEDState (setIdleMode s) = onboardLEDState s"
  "clock (setIdleMode s) = clock s"
  "audioLog (setIdleMode s) = audioLog s"
  "displayBuf (setIdleMode s) = displayBuf s"
  "displayLog (setIdleMode s) = displayLog s"
  "pwm (setIdleMode s) =
     (pwm s)(led_pin (currentMode s) := DIM_BRIGHTNESS, led_pin (opposite (currentMode s)) := 0)"
  "pwmLog (setIdleMode s) =
     pwmLog s @ [(led_pin (currentMode s), DIM_BRIGHTNESS), (led_pin (opposite (currentMode s)), 0)]"
  by (simp_all add: setIdleMode_def prim_defs led_pin_def opposite_def)

lemma setup_fn_ok:
  "setup_fn True audioBegin s =
     Some (updateMainDisplay (setIdleMode (runStartupSequence
       (if \<not> audioBegin then s\<lparr>audioEnabled := False\<rparr>
        else playAudio SOUND_POWER_UP
               (delay 1000 (s\<lparr>audioLog := audioLog s @ [Volume AUDIO_VOLUME]\<rparr>))))))"
  by (simp add: setup_fn_def Let_def)

lemma setIdleMode_idle: "idle_leds (setIdleMode s)"
  by (simp add: idle_leds_def led_pin_def opposite_def pin_defs)

lemma togglePortalMode_idle: "idle_leds (togglePortalMode s)"
  by (simp add: idle_leds_def led_pin_def opposite_def pin_defs fadeTransition_eq config_defs)

lemma shootPortal_idle: "idle_leds (shootPortal s)"
  by (simp add: idle_leds_def led_pin_def opposite_def pin_defs fadeTransition_eq config_defs)

lemma arduino_main_leds:
  "\<exists>s. arduino_main True audioBegin readings = Some s \<and> idle_leds s \<and>
       (\<forall>h \<in> set (duty_history (pwm power_on) (pwmLog s)).
          \<not> (h BLUE_LED_PIN = DIM_BRIGHTNESS \<and> h RED_LED_PIN = DIM_BRIGHTNESS))"
proof -
  obtain s0 where s0: "setup_fn True audioBegin power_on = Some s0"
    and mode: "currentMode s0 = BLUE_MODE"
    and log: "pwmLog s0 = [(BLUE_LED_PIN, DIM_BRIGHTNESS), (RED_LED_PIN, 0)]"
    and duty: "pwm s0 = (pwm power_on)(BLUE_LED_PIN := DIM_BRIGHTNESS, RED_LED_PIN := 0)"
    by (simp add: setup_fn_ok power_on_def playAudio_def delay_def led_pin_def opposite_def)
  have idle: "idle_leds s0"
    by (simp add: idle_leds_def mode duty led_pin_def opposite_def pin_defs)
  have fold: "pwm s0 = fold apply_write (pwmLog s0) (pwm power_on)"
    by (simp add: log duty apply_write_def)
  have hist: "\<forall>h \<in> set (duty_history (pwm power_on) (pwmLog s0)).
                \<not> (h BLUE_LED_PIN = DIM_BRIGHTNESS \<and> h RED_LED_PIN = DIM_BRIGHTNESS)"
    by (simp add: log apply_write_def power_on_def pin_defs config_defs)
  show ?thesis
    using run_loop_leds [OF idle fold hist, of readings] s0 by (simp add: arduino_main_def)
qed

subsection \<open>The input poller, the main loop and startup\<close>

lemma handleButtons_actions_le:
  "toggle_actions (handleButtons tg sh s) \<le> toggle_actions s + 1 \<and>
   shoot_actions (handleButtons tg sh s) \<le> shoot_actions s + 1"
  by (simp add: handleButtons_def Let_def)

lemma handleButtons_accept_stamp:
  assumes "toggle_actions (handleButtons tg sh s) \<noteq> toggle_actions s \<or>
           shoot_actions (handleButtons tg sh s) \<noteq> shoot_actions s"
  shows "lastButtonPress (handleButtons tg sh s) = millis (handleButtons tg sh s)"
  using assms by (simp add: handleButtons_def Let_def millis_def split: if_splits)

lemma handleButtons_both:
  assumes "word_of_int DEBOUNCE_DELAY < millis s - lastButtonPress s"
    and "lastToggleState s = HIGH" and "lastShootState s = HIGH" and "\<not> isShooting s"
  shows "toggle_actions (handleButtons LOW LOW s) = toggle_actions s + 1 \<and>
         shoot_actions (handleButtons LOW LOW s) = shoot_actions s + 1 \<and>
         totalPortalsFired (handleButtons LOW LOW s) = totalPortalsFired s + 1 \<and>
         currentMode (handleButtons LOW LOW s) = currentMode s"
  using assms by (auto simp add: handleButtons_def Let_def not_blue_iff)

lemma loop_closed:
  assumes "millis s - lastButtonPress s \<le> word_of_int DEBOUNCE_DELAY"
  shows "toggle_actions (loop tg sh s) = toggle_actions s"
    "shoot_actions (loop tg sh s) = shoot_actions s"
    "lastButtonPress (loop tg sh s) = lastButtonPress s"
    "clock (loop tg sh s) = clock s + 10"
  using assms by (simp_all add: handleButtons_closed)

lemma run_loop_window:
  assumes "unat (clock s - lastButtonPress s) + 10 * length rs \<le> 60"
  shows "toggle_actions (run_loop rs s) = toggle_actions s \<and>
         shoot_actions (run_loop rs s) = shoot_actions s"
  using assms
proof (induction rs arbitrary: s)
  case Nil
  then show ?case by simp
next
  case (Cons r rs)
  let ?s' = "loop (fst r) (snd r) s"
  have small: "unat (clock s - lastButtonPress s) \<le> 50"
    using Cons.prems(1) by simp
  then have closed: "millis s - lastButtonPress s \<le> word_of_int DEBOUNCE_DELAY"
    by (simp add: millis_def DEBOUNCE_DELAY_def word_le_nat_alt)
  have diff: "clock ?s' - lastButtonPress ?s' = (clock s - lastButtonPress s) + 10"
    by (simp add: handleButtons_closed [OF closed])
  have "unat (clock ?s' - lastButtonPress ?s') = unat (clock s - lastButtonPress s) + 10"
    unfolding diff using small by (simp add: unat_word_ariths)
  then have next_small: "unat (clock ?s' - lastButtonPress ?s') + 10 * length rs \<le> 60"
    using Cons.prems(1) by simp
  show ?case
    using Cons.IH [OF next_small] by (simp add: handleButtons_closed [OF closed])
qed

lemma run_loop_held_toggle:
  assumes "lastToggleState s = LOW" and "\<forall>r \<in> set rs. fst r = LOW"
  shows "toggle_actions (run_loop rs s) = toggle_actions s"
  using assms
proof (induction rs arbitrary: s)
  case Nil
  then show ?case by simp
next
  case (Cons r rs)
  have r: "fst r = LOW"
    using Cons.prems(2) by simp
  have step: "toggle_actions (handleButtons (fst r) (snd r) s) = toggle_actions s"
    using Cons.prems(1) by (simp add: r handleButtons_def Let_def HIGH_def LOW_def)
  have "toggle_actions (run_loop rs (loop (fst r) (snd r) s)) =
          toggle_actions (loop (fst r) (snd r) s)"
    using Cons.prems(2) by (intro Cons.IH) (simp_all add: r)
  then show ?case
    by (simp add: step)
qed

lemma run_loop_held_shoot:
  assumes "lastShootState s = LOW" and "\<forall>r \<in> set rs. snd r = LOW"
  shows "shoot_actions (run_loop rs s) = shoot_actions s \<and>
         totalPortalsFired (run_loop rs s) = totalPortalsFired s"
  using assms
proof (induction rs arbitrary: s)
  case Nil
  then show ?case by simp
next
  case (Cons r rs)
  have r: "snd r = LOW"
    using Cons.prems(2) by simp
  have step: "shoot_actions (handleButtons (fst r) (snd r) s) = shoot_actions s"
    "totalPortalsFired (handleButtons (fst r) (snd r) s) = totalPortalsFired s"
    using Cons.prems(1) by (simp_all add: r handleButtons_def Let_def HIGH_def LOW_def)
  have "shoot_actions (run_loop rs (loop (fst r) (snd r) s)) =
          shoot_actions (loop (fst r) (snd r) s) \<and>
        totalPortalsFired (run_loop rs (loop (fst r) (snd r) s)) =
          totalPortalsFired (loop (fst r) (snd r) s)"
    using Cons.prems(2) by (intro Cons.IH) (simp_all add: r)
  then show ?case
    by (simp add: step)
qed

lemma run_loop_held_toggle_only:
  assumes "lastToggleState s = LOW" and "\<forall>r \<in> set rs. r = (LOW, HIGH)"
  shows "currentMode (run_loop rs s) = currentMode s \<and>
         totalPortalsFired (run_loop rs s) = totalPortalsFired s \<and>
         pwmLog (run_loop rs s) = pwmLog s \<and> audioLog (run_loop rs s) = audioLog s"
  using assms
proof (induction rs arbitrary: s)
  case Nil
  then show ?case by simp
next
  case (Cons r rs)
  have r: "r = (LOW, HIGH)"
    using Cons.prems(2) by simp
  have hb: "handleButtons LOW HIGH s = s\<lparr>lastToggleState := LOW, lastShootState := HIGH\<rparr>"
    using Cons.prems(1) by (simp add: handleButtons_def Let_def HIGH_def LOW_def)
  have "currentMode (run_loop rs (loop LOW HIGH s)) = currentMode (loop LOW HIGH s) \<and>
         totalPortalsFired (run_loop rs (loop LOW HIGH s)) = totalPortalsFired (loop LOW HIGH s) \<and>
         pwmLog (run_loop rs (loop LOW HIGH s)) = pwmLog (loop LOW HIGH s) \<and>
         audioLog (run_loop rs (loop LOW HIGH s)) = audioLog (loop LOW HIGH s)"
    using Cons.prems(2) by (intro Cons.IH) simp_all
  then show ?case
    by (simp add: r hb)
qed

lemma startup_actions [simp]:
  "toggle_actions (setIdleMode s) = toggle_actions s"
  "shoot_actions (setIdleMode s) = shoot_actions s"
  "toggle_actions (runStartupSequence s) = toggle_actions s"
  "shoot_actions (runStartupSequence s) = shoot_actions s"
  by (simp_all add: toggle_actions_def shoot_actions_def runStartupSequence_displayLog
        string_defs)

lemma setup_state:
  obtains s0 where "setup_fn True True power_on = Some s0"
    and "currentMode s0 = BLUE_MODE" and "\<not> isShooting s0" and "audioEnabled s0"
    and "totalPortalsFired s0 = 0" and "lastButtonPress s0 = 0"
    and "lastToggleState s0 = HIGH" and "lastShootState s0 = HIGH"
    and "clock s0 = 8500" and "audioLog s0 = [Volume 25, Play 1]"
    and "toggle_actions s0 = 0" and "shoot_actions s0 = 0"
proof
  let ?s0 = "updateMainDisplay (setIdleMode (runStartupSequence
              (playAudio SOUND_POWER_UP
                (delay 1000 (power_on\<lparr>audioLog := audioLog power_on @ [Volume AUDIO_VOLUME]\<rparr>)))))"
  show "setup_fn True True power_on = Some ?s0"
    by (simp add: setup_fn_ok)
  show "currentMode ?s0 = BLUE_MODE" "\<not> isShooting ?s0" "audioEnabled ?s0"
    "totalPortalsFired ?s0 = 0" "lastButtonPress ?s0 = 0"
    "lastToggleState ?s0 = HIGH" "lastShootState ?s0 = HIGH"
    "clock ?s0 = 8500" "audioLog ?s0 = [Volume 25, Play 1]"
    by (simp_all add: power_on_def playAudio_def delay_def sound_defs config_defs)
  show "toggle_actions ?s0 = 0" "shoot_actions ?s0 = 0"
    by (simp_all add: playAudio_def delay_def)
       (simp_all add: toggle_actions_def shoot_actions_def power_on_def)
qed

lemma updateOnboardLED_blink:
  "lastBlinkTime (updateOnboardLED s) =
     (if currentMode s \<noteq> BLUE_MODE \<and> word_of_int BLINK_INTERVAL \<le> millis s - lastBlinkTime s
      then millis s else lastBlinkTime s)"
  "onboardLEDState (updateOnboardLED s) =
     (if currentMode s \<noteq> BLUE_MODE \<and> word_of_int BLINK_INTERVAL \<le> millis s - lastBlinkTime s
      then \<not> onboardLEDState s else onboardLEDState s)"
  "dout (updateOnboardLED s) =
     (if currentMode s = BLUE_MODE then (dout s)(ONBOARD_LED_PIN := HIGH)
      else if word_of_int BLINK_INTERVAL \<le> millis s - lastBlinkTime s
      then (dout s)(ONBOARD_LED_PIN := \<not> onboardLEDState s) else dout s)"
  by (simp_all add: updateOnboardLED_def Let_def prim_defs)

lemma updateDisplayPeriodically_refresh:
  "lastOLEDUpdate (updateDisplayPeriodically s) =
     (if word_of_int OLED_UPDATE_INTERVAL \<le> millis s - lastOLEDUpdate s
      then millis s else lastOLEDUpdate s)"
  "length (displayLog (updateDisplayPeriodically s)) =
     (if word_of_int OLED_UPDATE_INTERVAL \<le> millis s - lastOLEDUpdate s \<and> \<not> isShooting s
      then length (displayLog s) + 1 else length (displayLog s))"
  by (simp_all add: updateDisplayPeriodically_def Let_def millis_def updateMainDisplay_displayLog)

lemma action_frames_length:
  "length (displayLog (togglePortalMode s)) =
     length (displayLog s) + (if isShooting s then 1 else 2)"
  "length (displayLog (shootPortal s)) = length (displayLog s) + 2"
  by (simp_all add: togglePortalMode_displayLog shootPortal_displayLog)

lemma handleButtons_audio_blind:
  assumes "audio_blind s = audio_blind t"
  shows "audio_blind (handleButtons tg sh s) = audio_blind (handleButtons tg sh t)"
  using assms
  by (simp add: audio_blind_def handleButtons_def Let_def millis_def action_frames_length
        fadeTransition_eq performShootingEffect_eq)

lemma loop_audio_blind:
  assumes "audio_blind s = audio_blind t"
  shows "audio_blind (loop tg sh s) = audio_blind (loop tg sh t)"
proof -
  have "audio_blind (handleButtons tg sh s) = audio_blind (handleButtons tg sh t)"
    using assms by (rule handleButtons_audio_blind)
  then show ?thesis
    unfolding loop_def
    by (simp add: audio_blind_def delay_def updateOnboardLED_blink
          updateDisplayPeriodically_refresh millis_def)
qed

lemma run_loop_audio_blind:
  assumes "audio_blind s = audio_blind t"
  shows "audio_blind (run_loop rs s) = audio_blind (run_loop rs t)"
  using assms
proof (induction rs arbitrary: s t)
  case Nil
  then show ?case by simp
next
  case (Cons r rs)
  show ?case
    using Cons.IH [OF loop_audio_blind [OF Cons.prems]] by simp
qed

lemma run_loop_audio_off:
  assumes "\<not> audioEnabled s"
  shows "\<not> audioEnabled (run_loop rs s) \<and> audioLog (run_loop rs s) = audioLog s"
  using assms
proof (induction rs arbitrary: s)
  case Nil
  then show ?case by simp
next
  case (Cons r rs)
  have step: "audioLog (handleButtons (fst r) (snd r) s) = audioLog s"
    using Cons.prems by (simp add: handleButtons_def Let_def)
  have "\<not> audioEnabled (loop (fst r) (snd r) s)"
    using Cons.prems by simp
  from Cons.IH [OF this] show ?case
    by (simp add: step)
qed

lemma sint_fired_succ:
  fixes x :: "16 word"
  assumes "sint x \<noteq> 32767"
  shows "sint (x + 1) = sint x + 1"
proof -
  have "sint x < 2 ^ (LENGTH(16) - 1)" "- (2 ^ (LENGTH(16) - 1)) \<le> sint x"
    by (rule sint_lt, rule sint_ge)
  then have "- (2 ^ 15) \<le> sint x + 1" "sint x + 1 < 2 ^ 15"
    using assms by simp_all
  then have "signed_take_bit 15 (sint x + 1) = sint x + 1"
    by (simp add: signed_take_bit_int_eq_self)
  then show ?thesis
    by (simp add: sint_word_ariths)
qed

lemma run_loop_append: "run_loop (xs @ ys) s = run_loop ys (run_loop xs s)"
  by (induction xs arbitrary: s) simp_all

lemma run_loop_audioEnabled [simp]: "audioEnabled (run_loop rs s) = audioEnabled s"
  by (induction rs arbitrary: s) simp_all

lemma handleButtons_released:
  "handleButtons HIGH HIGH s = s\<lparr>lastToggleState := HIGH, lastShootState := HIGH\<rparr>"
  by (simp add: handleButtons_def Let_def HIGH_def LOW_def)

lemma run_loop_released:
  "currentMode (run_loop (replicate n (HIGH, HIGH)) s) = currentMode s \<and>
   isShooting (run_loop (replicate n (HIGH, HIGH)) s) = isShooting s \<and>
   totalPortalsFired (run_loop (replicate n (HIGH, HIGH)) s) = totalPortalsFired s \<and>
   lastButtonPress (run_loop (replicate n (HIGH, HIGH)) s) = lastButtonPress s \<and>
   audioLog (run_loop (replicate n (HIGH, HIGH)) s) = audioLog s \<and>
   clock (run_loop (replicate n (HIGH, HIGH)) s) = clock s + 10 * of_nat n \<and>
   (0 < n \<longrightarrow> lastToggleState (run_loop (replicate n (HIGH, HIGH)) s) = HIGH \<and>
              lastShootState (run_loop (replicate n (HIGH, HIGH)) s) = HIGH)"
proof (induction n arbitrary: s)
  case 0
  then show ?case by simp
next
  case (Suc n)
  show ?case
    using Suc.IH [of "loop HIGH HIGH s"]
    by (cases n) (simp_all add: handleButtons_released algebra_simps)
qed

lemma accepted_toggle:
  assumes "word_of_int DEBOUNCE_DELAY < millis s - lastButtonPress s" "lastToggleState s = HIGH"
  shows "handleButtons LOW HIGH s =
           (togglePortalMode s)\<lparr>lastButtonPress := millis (togglePortalMode s),
              lastToggleState := LOW, lastShootState := HIGH\<rparr>"
  using assms by (simp add: handleButtons_def Let_def HIGH_def LOW_def)

lemma accepted_shoot:
  assumes "word_of_int DEBOUNCE_DELAY < millis s - lastButtonPress s" "lastShootState s = HIGH"
    "\<not> isShooting s"
  shows "handleButtons HIGH LOW s =
           (shootPortal s)\<lparr>lastButtonPress := millis (shootPortal s),
              lastToggleState := HIGH, lastShootState := LOW\<rparr>"
  using assms by (simp add: handleButtons_def Let_def HIGH_def LOW_def)

lemma scenario_trace:
  "map_option (\<lambda>s. (currentMode s, totalPortalsFired s, audioLog s)) (arduino_main True True []) =
     Some (BLUE_MODE, 0, [Volume 25, Play 1]) \<and>
   map_option (\<lambda>s. (currentMode s, totalPortalsFired s, audioLog s))
     (arduino_main True True [(LOW, HIGH)]) =
     Some (RED_MODE, 0, [Volume 25, Play 1, Play SOUND_MODE_SWITCH]) \<and>
   map_option (\<lambda>s. (currentMode s, totalPortalsFired s, audioLog s))
     (arduino_main True True ([(LOW, HIGH)] @ replicate 5 (HIGH, HIGH) @ [(HIGH, LOW)])) =
     Some (BLUE_MODE, 1, [Volume 25, Play 1, Play SOUND_MODE_SWITCH, Play SOUND_RED_PORTAL]) \<and>
   map_option (\<lambda>s. (currentMode s, totalPortalsFired s))
     (arduino_main True True
        ([(LOW, HIGH)] @ replicate 5 (HIGH, HIGH) @ [(HIGH, LOW)] @
         replicate 5 (HIGH, HIGH) @ [(LOW, HIGH)])) =
     Some (RED_MODE, 1)"
proof -
  obtain s0 where s0: "setup_fn True True power_on = Some s0"
    and f0: "currentMode s0 = BLUE_MODE" "\<not> isShooting s0" "audioEnabled s0"
      "totalPortalsFired s0 = 0" "lastButtonPress s0 = 0"
      "lastToggleState s0 = HIGH" "lastShootState s0 = HIGH"
      "clock s0 = 8500" "audioLog s0 = [Volume 25, Play 1]"
    by (rule setup_state)
  define s1 where "s1 = loop LOW HIGH s0"
  define s2 where "s2 = run_loop (replicate 5 (HIGH, HIGH)) s1"
  define s3 where "s3 = loop HIGH LOW s2"
  define s4 where "s4 = run_loop (replicate 5 (HIGH, HIGH)) s3"
  define s5 where "s5 = loop LOW HIGH s4"
  have g0: "word_of_int DEBOUNCE_DELAY < millis s0 - lastButtonPress s0"
    by (simp add: f0 millis_def DEBOUNCE_DELAY_def)
  have f1: "currentMode s1 = RED_MODE" "\<not> isShooting s1" "audioEnabled s1"
    "totalPortalsFired s1 = 0" "lastButtonPress s1 = 9820" "clock s1 = 9830"
    "lastShootState s1 = HIGH"
    "audioLog s1 = [Volume 25, Play 1, Play SOUND_MODE_SWITCH]"
    unfolding s1_def by (simp_all add: accepted_toggle [OF g0 f0(6)] f0 millis_def)
  have f2: "currentMode s2 = RED_MODE" "\<not> isShooting s2" "audioEnabled s2"
    "totalPortalsFired s2 = 0" "lastButtonPress s2 = 9820" "clock s2 = 9880"
    "lastToggleState s2 = HIGH" "lastShootState s2 = HIGH"
    "audioLog s2 = [Volume 25, Play 1, Play SOUND_MODE_SWITCH]"
    unfolding s2_def using run_loop_released [of 5 s1] by (simp_all add: f1)
  have g2: "word_of_int DEBOUNCE_DELAY < millis s2 - lastButtonPress s2"
    by (simp add: f2 millis_def DEBOUNCE_DELAY_def)
  have f3: "currentMode s3 = BLUE_MODE" "\<not> isShooting s3"
    "totalPortalsFired s3 = 1" "lastButtonPress s3 = 14680" "clock s3 = 14690"
    "audioLog s3 = [Volume 25, Play 1, Play SOUND_MODE_SWITCH, Play SOUND_RED_PORTAL]"
    unfolding s3_def by (simp_all add: accepted_shoot [OF g2 f2(8) f2(2)] f2 millis_def)
  have f4: "currentMode s4 = BLUE_MODE"
    "totalPortalsFired s4 = 1" "lastButtonPress s4 = 14680" "clock s4 = 14740"
    "lastToggleState s4 = HIGH"
    unfolding s4_def using run_loop_released [of 5 s3] by (simp_all add: f3)
  have g4: "word_of_int DEBOUNCE_DELAY < millis s4 - lastButtonPress s4"
    by (simp add: f4 millis_def DEBOUNCE_DELAY_def)
  have f5: "currentMode s5 = RED_MODE" "totalPortalsFired s5 = 1"
    unfolding s5_def by (simp_all add: accepted_toggle [OF g4 f4(5)] f4)
  show ?thesis
    using f0 f1 f3 f5
    by (simp add: arduino_main_def s0 run_loop_append s1_def s2_def s3_def s4_def s5_def)
qed

subsection \<open>Hanging in setup, and the button lines over time\<close>

lemma setup_outcome_fn:
  "setup_fn displayBegin audioBegin s =
     (case setup_outcome displayBegin audioBegin s of
        Returned s' \<Rightarrow> Some s' | Hung h \<Rightarrow> None)"
  by (simp add: setup_fn_def setup_outcome_def halt_forever_None Let_def)

lemma arduino_outcome_main:
  "arduino_main displayBegin audioBegin readings =
     (case arduino_outcome displayBegin audioBegin readings of
        Returned s' \<Rightarrow> Some s' | Hung h \<Rightarrow> None)"
  by (simp add: arduino_main_def arduino_outcome_def setup_outcome_fn split: outcome.splits)

lemma arduino_outcome_started:
  "\<exists>s'. arduino_outcome True audioBegin [] = Returned s' \<and>
        pwmLog s' = [(BLUE_LED_PIN, DIM_BRIGHTNESS), (RED_LED_PIN, 0)] \<and>
        length (displayLog s') = (if audioBegin then 5 else 4)"
  by (simp add: arduino_outcome_def setup_outcome_def Let_def power_on_def playAudio_def
        delay_def led_pin_def opposite_def runStartupSequence_displayLog
        updateMainDisplay_displayLog sound_defs)












section \<open>Properties\<close>

subsection \<open>Toggling\<close>

text \<open>
  Claim C4. One toggle turns the mode into the opposite one, two toggles in a row restore
  it, and after \<open>n\<close> toggles in a row (no shoot in between) the mode is the starting mode
  when \<open>n\<close> is even and the opposite one when \<open>n\<close> is odd, so two consecutive toggles never
  leave the same mode. A toggle press that the poller accepts (debounce window elapsed,
  toggle line low after high, shoot line high) is such a toggle.
\<close>

theorem toggle_alternates:
  "currentMode (togglePortalMode s) = opposite (currentMode s) \<and>
   currentMode (togglePortalMode s) \<noteq> currentMode s \<and>
   currentMode (togglePortalMode (togglePortalMode s)) = currentMode s \<and>
   currentMode ((togglePortalMode ^^ n) s) =
     (if even n then currentMode s else opposite (currentMode s)) \<and>
   currentMode ((togglePortalMode ^^ Suc n) s) \<noteq> currentMode ((togglePortalMode ^^ n) s) \<and>
   (word_of_int DEBOUNCE_DELAY < millis s - lastButtonPress s \<and> lastToggleState s = HIGH \<longrightarrow>
      currentMode (handleButtons LOW HIGH s) = opposite (currentMode s))"
proof -
  have "currentMode ((togglePortalMode ^^ Suc n) s) \<noteq> currentMode ((togglePortalMode ^^ n) s)"
    by simp
  moreover have
    "word_of_int DEBOUNCE_DELAY < millis s - lastButtonPress s \<and> lastToggleState s = HIGH \<longrightarrow>
       currentMode (handleButtons LOW HIGH s) = opposite (currentMode s)"
    by (simp add: handleButtons_def Let_def opposite_def HIGH_def LOW_def)
  ultimately show ?thesis
    using toggle_funpow_mode [of n s] by (auto simp: opposite_def not_blue_iff)
qed

theorem toggle_alternates_witness:
  "currentMode ((togglePortalMode ^^ 3) power_on) = RED_MODE \<and>
   currentMode ((togglePortalMode ^^ 4) power_on) = BLUE_MODE \<and>
   word_of_int DEBOUNCE_DELAY
     < millis (power_on\<lparr>clock := 8500\<rparr>) - lastButtonPress (power_on\<lparr>clock := 8500\<rparr>) \<and>
   lastToggleState (power_on\<lparr>clock := 8500\<rparr>) = HIGH \<and>
   currentMode (handleButtons LOW HIGH (power_on\<lparr>clock := 8500\<rparr>)) = RED_MODE"
  using toggle_alternates [of power_on 3] toggle_alternates [of power_on 4]
    toggle_alternates [of "power_on\<lparr>clock := 8500\<rparr>" 0]
  by (simp add: power_on_def opposite_def millis_def DEBOUNCE_DELAY_def HIGH_def)

subsection \<open>A shoot press while the shooting flag is set\<close>

text \<open>
  Claim C5. While \<open>isShooting\<close> is true, a shoot press is a no-op for the poller: with the
  toggle line high the poll changes nothing but the two stored levels, so mode and fired
  counter stay as they are; and whatever the toggle line shows, no shoot sequence is
  started, the fired counter is unchanged and the flag stays set.
\<close>

theorem second_shoot_is_noop:
  assumes "isShooting s"
  shows "handleButtons HIGH LOW s = s\<lparr>lastToggleState := HIGH, lastShootState := LOW\<rparr> \<and>
         currentMode (handleButtons HIGH LOW s) = currentMode s \<and>
         totalPortalsFired (handleButtons tg LOW s) = totalPortalsFired s \<and>
         shoot_actions (handleButtons tg LOW s) = shoot_actions s \<and>
         isShooting (handleButtons tg LOW s)"
  using assms by (simp add: handleButtons_def Let_def HIGH_def LOW_def)

theorem second_shoot_is_noop_witness:
  "isShooting (power_on\<lparr>isShooting := True, clock := 9000\<rparr>) \<and>
   totalPortalsFired (handleButtons HIGH LOW (power_on\<lparr>isShooting := True, clock := 9000\<rparr>)) = 0 \<and>
   currentMode (handleButtons HIGH LOW (power_on\<lparr>isShooting := True, clock := 9000\<rparr>)) = BLUE_MODE"
  using second_shoot_is_noop [of "power_on\<lparr>isShooting := True, clock := 9000\<rparr>" HIGH]
  by (simp add: power_on_def)

subsection \<open>Display failure at startup\<close>

text \<open>
  Claim C8. When \<open>display.begin\<close> fails, \<open>setup()\<close> never returns and no iteration of
  \<open>loop()\<close> is reached, whatever the audio module reports and whatever the buttons do. It
  hangs in the very state it was entered in: for the program, the machine stays in the
  power-on state for every list of button readings, with no \<open>analogWrite\<close>, no audio
  command and no display frame ever issued, the mode blue and the counter 0. The outcome
  with the state and the non-returning computation describe the same \<open>setup()\<close>: it
  returns exactly when the outcome is \<open>Returned\<close>, with that state. With a working display
  \<open>setup()\<close> does return, having written both LED channels and shown its screens.
\<close>

theorem display_failure_halts:
  "setup_fn False audioBegin s = halt_forever s \<and>
   setup_fn False audioBegin s = None \<and>
   arduino_main False audioBegin readings = None \<and>
   setup_outcome False audioBegin s = Hung s \<and>
   arduino_outcome False audioBegin readings = Hung power_on \<and>
   pwmLog power_on = [] \<and> audioLog power_on = [] \<and> displayLog power_on = [] \<and>
   currentMode power_on = BLUE_MODE \<and> totalPortalsFired power_on = 0 \<and>
   setup_fn displayBegin audioBegin s =
     (case setup_outcome displayBegin audioBegin s of
        Returned s' \<Rightarrow> Some s' | Hung h \<Rightarrow> None) \<and>
   arduino_main displayBegin audioBegin readings =
     (case arduino_outcome displayBegin audioBegin readings of
        Returned s' \<Rightarrow> Some s' | Hung h \<Rightarrow> None) \<and>
   (\<exists>s'. arduino_outcome True audioBegin [] = Returned s' \<and>
        pwmLog s' = [(BLUE_LED_PIN, DIM_BRIGHTNESS), (RED_LED_PIN, 0)] \<and>
        length (displayLog s') = (if audioBegin then 5 else 4))"
proof -
  have "setup_outcome False audioBegin s = Hung s"
    "arduino_outcome False audioBegin readings = Hung power_on"
    by (simp_all add: setup_outcome_def arduino_outcome_def)
  moreover have "pwmLog power_on = []" "audioLog power_on = []" "displayLog power_on = []"
    "currentMode power_on = BLUE_MODE" "totalPortalsFired power_on = 0"
    by (simp_all add: power_on_def)
  moreover have "setup_fn False audioBegin s = halt_forever s"
    "setup_fn False audioBegin s = None" "arduino_main False audioBegin readings = None"
    by (simp_all add: setup_fn_def arduino_main_def halt_forever_None)
  ultimately show ?thesis
    using setup_outcome_fn [of displayBegin audioBegin s]
      arduino_outcome_main [of displayBegin audioBegin readings]
      arduino_outcome_started [of audioBegin]
    by blast
qed

subsection \<open>The fade\<close>

text \<open>
  Claim C10. \<open>fadeTransition(from, to)\<close> writes, for step = 0, 2, ..., 30 in this order,
  \<open>DIM_BRIGHTNESS - step\<close> to the from channel and then \<open>step\<close> to the to channel, and ends
  with 0 and \<open>DIM_BRIGHTNESS\<close>. For two different channels, the duty cycles after each
  write are the listed pairs: after the two writes of a step they are
  \<open>(DIM_BRIGHTNESS - step, step)\<close> and add up to \<open>DIM_BRIGHTNESS\<close>, between the two writes
  the to channel still has the value of the step before. When the to channel starts below
  \<open>DIM_BRIGHTNESS\<close>, as it does at every call of the sketch, the two channels are at no
  moment of the fade both at or above \<open>DIM_BRIGHTNESS\<close>.
\<close>

theorem fade_steps_sum_to_dim:
  "pwmLog (fadeTransition f t s) =
     pwmLog s @
     concat (map (\<lambda>step. [(f, DIM_BRIGHTNESS - step), (t, step)])
               [0, 2, 4, 6, 8, 10, 12, 14, 16, 18, 20, 22, 24, 26, 28, 30]) @
     [(f, 0), (t, DIM_BRIGHTNESS)] \<and>
   (f \<noteq> t \<longrightarrow>
      map (\<lambda>h. (h f, h t)) (duty_history (pwm s) (new_writes s (fadeTransition f t s))) =
        [(DIM_BRIGHTNESS, pwm s t), (DIM_BRIGHTNESS, 0)] @
        concat (map (\<lambda>step. [(DIM_BRIGHTNESS - step, step - FADE_STEP),
                               (DIM_BRIGHTNESS - step, step)])
                  [2, 4, 6, 8, 10, 12, 14, 16, 18, 20, 22, 24, 26, 28, 30]) @
        [(0, DIM_BRIGHTNESS), (0, DIM_BRIGHTNESS)]) \<and>
   (f \<noteq> t \<longrightarrow>
      (\<forall>k<16. (duty_history (pwm s) (new_writes s (fadeTransition f t s)) ! (2 * k + 1)) f +
               (duty_history (pwm s) (new_writes s (fadeTransition f t s)) ! (2 * k + 1)) t =
               DIM_BRIGHTNESS)) \<and>
   (f \<noteq> t \<and> pwm s t < DIM_BRIGHTNESS \<longrightarrow>
      (\<forall>h \<in> set (duty_history (pwm s) (new_writes s (fadeTransition f t s))).
         \<not> (DIM_BRIGHTNESS \<le> h f \<and> DIM_BRIGHTNESS \<le> h t)))"
proof -
  have "f \<noteq> t \<longrightarrow>
      (\<forall>k<16. (duty_history (pwm s) (new_writes s (fadeTransition f t s)) ! (2 * k + 1)) f +
               (duty_history (pwm s) (new_writes s (fadeTransition f t s)) ! (2 * k + 1)) t =
               DIM_BRIGHTNESS)"
    by (simp add: fadeTransition_eq config_defs new_writes_def apply_write_def
          eval_nat_numeral All_less_Suc)
  then show ?thesis
    using fade_log [of f t s] fade_history [of f t s] fade_never_both [of f t s]
    by blast
qed

theorem fade_steps_sum_to_dim_witness:
  "BLUE_LED_PIN \<noteq> RED_LED_PIN \<and> pwm power_on RED_LED_PIN < DIM_BRIGHTNESS \<and>
   length (duty_history (pwm power_on)
             (new_writes power_on (fadeTransition BLUE_LED_PIN RED_LED_PIN power_on))) = 34 \<and>
   (duty_history (pwm power_on)
     (new_writes power_on (fadeTransition BLUE_LED_PIN RED_LED_PIN power_on)) ! 5) BLUE_LED_PIN = 26 \<and>
   (duty_history (pwm power_on)
     (new_writes power_on (fadeTransition BLUE_LED_PIN RED_LED_PIN power_on)) ! 5) RED_LED_PIN = 4 \<and>
   list_all (\<lambda>h. \<not> (DIM_BRIGHTNESS \<le> h BLUE_LED_PIN \<and> DIM_BRIGHTNESS \<le> h RED_LED_PIN))
     (duty_history (pwm power_on)
        (new_writes power_on (fadeTransition BLUE_LED_PIN RED_LED_PIN power_on)))"
proof -
  have ne: "BLUE_LED_PIN \<noteq> RED_LED_PIN"
    by (simp add: pin_defs)
  have low: "pwm power_on RED_LED_PIN < DIM_BRIGHTNESS"
    by (simp add: power_on_def config_defs)
  have len: "length (duty_history (pwm power_on)
             (new_writes power_on (fadeTransition BLUE_LED_PIN RED_LED_PIN power_on))) = 34"
    by (simp add: fadeTransition_eq new_writes_def power_on_def)
  have snap: "(duty_history (pwm power_on)
     (new_writes power_on (fadeTransition BLUE_LED_PIN RED_LED_PIN power_on)) ! 5) BLUE_LED_PIN = 26"
    "(duty_history (pwm power_on)
     (new_writes power_on (fadeTransition BLUE_LED_PIN RED_LED_PIN power_on)) ! 5) RED_LED_PIN = 4"
    by (simp_all add: fadeTransition_eq new_writes_def power_on_def apply_write_def pin_defs)
  show ?thesis
    using fade_steps_sum_to_dim [of BLUE_LED_PIN RED_LED_PIN power_on] ne low len snap
    unfolding list_all_iff by blast
qed

subsection \<open>One colour at a time\<close>

text \<open>
  Claim C6. \<open>setIdleMode\<close>, \<open>togglePortalMode\<close> and \<open>shootPortal\<close> each end with the channel
  of the current mode at \<open>DIM_BRIGHTNESS\<close> and the other channel at 0, from any state;
  \<open>fadeTransition(from, to)\<close> on two different channels ends with from at 0 and to at
  \<open>DIM_BRIGHTNESS\<close>; an iteration of \<open>loop()\<close> keeps the LEDs idle. For every run of the
  program whose display starts (any audio result, any button readings), \<open>setup()\<close>
  returns, the LEDs are idle after the last iteration, and after no \<open>analogWrite\<close> of the
  whole run are both channels at \<open>DIM_BRIGHTNESS\<close> together, fades included.
\<close>

theorem one_color_active:
  "idle_leds (setIdleMode s) \<and>
   (f \<noteq> t \<longrightarrow> pwm (fadeTransition f t s) f = 0 \<and>
                 pwm (fadeTransition f t s) t = DIM_BRIGHTNESS) \<and>
   idle_leds (togglePortalMode s) \<and>
   idle_leds (shootPortal s) \<and>
   (idle_leds s \<longrightarrow> idle_leds (loop tg sh s)) \<and>
   (\<exists>s'. arduino_main True audioBegin readings = Some s' \<and> idle_leds s' \<and>
      (\<forall>h \<in> set (duty_history (pwm power_on) (pwmLog s')).
         \<not> (h BLUE_LED_PIN = DIM_BRIGHTNESS \<and> h RED_LED_PIN = DIM_BRIGHTNESS)))"
  using setIdleMode_idle [of s] togglePortalMode_idle [of s] shootPortal_idle [of s]
    loop_idle [of s tg sh] arduino_main_leds [of audioBegin readings]
  by (simp add: fadeTransition_eq config_defs)

theorem one_color_active_witness:
  "BLUE_LED_PIN \<noteq> RED_LED_PIN \<and>
   pwm (fadeTransition BLUE_LED_PIN RED_LED_PIN power_on) BLUE_LED_PIN = 0 \<and>
   pwm (fadeTransition BLUE_LED_PIN RED_LED_PIN power_on) RED_LED_PIN = 30 \<and>
   idle_leds (setIdleMode power_on) \<and>
   idle_leds (loop LOW HIGH (setIdleMode power_on)) \<and>
   (\<exists>s'. arduino_main True True [] = Some s' \<and> idle_leds s' \<and>
      map (\<lambda>h. (h BLUE_LED_PIN, h RED_LED_PIN)) (duty_history (pwm power_on) (pwmLog s')) =
        [(30, 0), (30, 0)] \<and>
      list_all (\<lambda>h. \<not> (h BLUE_LED_PIN = DIM_BRIGHTNESS \<and> h RED_LED_PIN = DIM_BRIGHTNESS))
        (duty_history (pwm power_on) (pwmLog s')))"
proof -
  have ne: "BLUE_LED_PIN \<noteq> RED_LED_PIN"
    by (simp add: pin_defs)
  obtain s' where run: "arduino_main True True [] = Some s'"
    and idle: "idle_leds s'"
    and hist: "\<forall>h \<in> set (duty_history (pwm power_on) (pwmLog s')).
                 \<not> (h BLUE_LED_PIN = DIM_BRIGHTNESS \<and> h RED_LED_PIN = DIM_BRIGHTNESS)"
    using one_color_active [of power_on BLUE_LED_PIN RED_LED_PIN LOW HIGH True "[]"] by blast
  have s': "s' = updateMainDisplay (setIdleMode (runStartupSequence
              (playAudio SOUND_POWER_UP
                (delay 1000 (power_on\<lparr>audioLog := audioLog power_on @ [Volume AUDIO_VOLUME]\<rparr>)))))"
    using run by (simp add: arduino_main_def setup_fn_ok)
  have pairs: "map (\<lambda>h. (h BLUE_LED_PIN, h RED_LED_PIN))
                 (duty_history (pwm power_on) (pwmLog s')) = [(30, 0), (30, 0)]"
    by (simp add: s' power_on_def playAudio_def delay_def led_pin_def opposite_def
          apply_write_def pin_defs config_defs)
  show ?thesis
    using one_color_active [of "setIdleMode power_on" BLUE_LED_PIN RED_LED_PIN LOW HIGH True "[]"]
      one_color_active [of power_on BLUE_LED_PIN RED_LED_PIN LOW HIGH True "[]"]
      ne run idle hist pairs
    by (simp add: config_defs list_all_iff)
qed

subsection \<open>Shooting\<close>

text \<open>
  Claim C1. From either mode \<open>m\<close>, \<open>shootPortal\<close> ends in the opposite mode, has added
  exactly one to the fired counter (in 16-bit arithmetic; the signed value grows by one
  unless it was 32767), has passed the firing track of \<open>m\<close> to \<open>playAudio\<close> (track 2 for
  blue, 3 for red; the play command reaches the player when audio is enabled), has shown
  one auto-switch screen, has cleared the shooting flag and has left the LEDs idle for the
  new mode. A shoot press that the poller accepts runs exactly this. The scenario of the
  specification holds on the whole program: after startup the mode is blue with nothing
  fired; a toggle press makes it red; a shoot press, polled once the debounce window has
  passed, plays the red firing track and leaves blue with one portal fired; the next
  toggle press leaves red with one portal fired.
\<close>

theorem shoot_event:
  "currentMode (shootPortal s) = opposite (currentMode s) \<and>
   totalPortalsFired (shootPortal s) = totalPortalsFired s + 1 \<and>
   (sint (totalPortalsFired s) \<noteq> 32767 \<longrightarrow>
      sint (totalPortalsFired (shootPortal s)) = sint (totalPortalsFired s) + 1) \<and>
   audioLog (shootPortal s) = audioLog (playAudio (fire_track (currentMode s)) s) \<and>
   (audioEnabled s \<longrightarrow>
      audioLog (shootPortal s) = audioLog s @ [Play (fire_track (currentMode s))]) \<and>
   shoot_actions (shootPortal s) = shoot_actions s + 1 \<and>
   \<not> isShooting (shootPortal s) \<and>
   idle_leds (shootPortal s) \<and>
   (word_of_int DEBOUNCE_DELAY < millis s - lastButtonPress s \<and>
    lastShootState s = HIGH \<and> \<not> isShooting s \<longrightarrow>
      handleButtons HIGH LOW s =
        (shootPortal s)\<lparr>lastButtonPress := millis (shootPortal s),
           lastToggleState := HIGH, lastShootState := LOW\<rparr>) \<and>
   map_option (\<lambda>s. (currentMode s, totalPortalsFired s, audioLog s)) (arduino_main True True []) =
     Some (BLUE_MODE, 0, [Volume 25, Play 1]) \<and>
   map_option (\<lambda>s. (currentMode s, totalPortalsFired s, audioLog s))
     (arduino_main True True [(LOW, HIGH)]) =
     Some (RED_MODE, 0, [Volume 25, Play 1, Play SOUND_MODE_SWITCH]) \<and>
   map_option (\<lambda>s. (currentMode s, totalPortalsFired s, audioLog s))
     (arduino_main True True ([(LOW, HIGH)] @ replicate 5 (HIGH, HIGH) @ [(HIGH, LOW)])) =
     Some (BLUE_MODE, 1, [Volume 25, Play 1, Play SOUND_MODE_SWITCH, Play SOUND_RED_PORTAL]) \<and>
   map_option (\<lambda>s. (currentMode s, totalPortalsFired s))
     (arduino_main True True
        ([(LOW, HIGH)] @ replicate 5 (HIGH, HIGH) @ [(HIGH, LOW)] @
         replicate 5 (HIGH, HIGH) @ [(LOW, HIGH)])) =
     Some (RED_MODE, 1)"
proof -
  have audio: "audioLog (shootPortal s) = audioLog (playAudio (fire_track (currentMode s)) s)"
    "audioEnabled s \<longrightarrow>
      audioLog (shootPortal s) = audioLog s @ [Play (fire_track (currentMode s))]"
    by (simp_all add: playAudio_def fire_track_def sound_defs)
  have fired: "sint (totalPortalsFired s) \<noteq> 32767 \<longrightarrow>
      sint (totalPortalsFired (shootPortal s)) = sint (totalPortalsFired s) + 1"
    by (simp add: sint_fired_succ)
  have basic: "currentMode (shootPortal s) = opposite (currentMode s)"
    "totalPortalsFired (shootPortal s) = totalPortalsFired s + 1"
    "shoot_actions (shootPortal s) = shoot_actions s + 1"
    "\<not> isShooting (shootPortal s)"
    by (simp_all add: opposite_def)
  show ?thesis
    using audio fired basic shootPortal_idle [of s] accepted_shoot [of s] scenario_trace
    by blast
qed

theorem shoot_event_witness:
  "sint (totalPortalsFired (power_on\<lparr>clock := 8500\<rparr>)) \<noteq> 32767 \<and>
   audioEnabled (power_on\<lparr>clock := 8500\<rparr>) \<and>
   word_of_int DEBOUNCE_DELAY
     < millis (power_on\<lparr>clock := 8500\<rparr>) - lastButtonPress (power_on\<lparr>clock := 8500\<rparr>) \<and>
   lastShootState (power_on\<lparr>clock := 8500\<rparr>) = HIGH \<and>
   \<not> isShooting (power_on\<lparr>clock := 8500\<rparr>) \<and>
   sint (totalPortalsFired (handleButtons HIGH LOW (power_on\<lparr>clock := 8500\<rparr>))) = 1 \<and>
   currentMode (handleButtons HIGH LOW (power_on\<lparr>clock := 8500\<rparr>)) = RED_MODE \<and>
   audioLog (handleButtons HIGH LOW (power_on\<lparr>clock := 8500\<rparr>)) = [Play SOUND_BLUE_PORTAL]"
proof -
  let ?r = "power_on\<lparr>clock := 8500\<rparr>"
  have r: "sint (totalPortalsFired ?r) \<noteq> 32767" "audioEnabled ?r"
    "word_of_int DEBOUNCE_DELAY < millis ?r - lastButtonPress ?r"
    "lastShootState ?r = HIGH" "\<not> isShooting ?r"
    "totalPortalsFired ?r = 0" "currentMode ?r = BLUE_MODE" "audioLog ?r = []"
    by (simp_all add: power_on_def millis_def DEBOUNCE_DELAY_def)
  have hb: "handleButtons HIGH LOW ?r =
        (shootPortal ?r)\<lparr>lastButtonPress := millis (shootPortal ?r),
           lastToggleState := HIGH, lastShootState := LOW\<rparr>"
    using shoot_event [of ?r] r by blast
  have "sint (totalPortalsFired (shootPortal ?r)) = 1"
    "currentMode (shootPortal ?r) = RED_MODE"
    "audioLog (shootPortal ?r) = [Play SOUND_BLUE_PORTAL]"
    using shoot_event [of ?r] r by (simp_all add: opposite_def fire_track_def)
  then show ?thesis
    using r by (simp add: hb)
qed

subsection \<open>The debounce window\<close>

text \<open>
  Claim C2 as stated does not hold: the window is tested once per poll, before both
  buttons are looked at. On the first poll after startup with both lines low, the toggle
  is carried out and then the shoot, two accepted actions from two falling edges seen at
  the same instant.
\<close>

theorem both_buttons_counterexample:
  "map_option toggle_actions (arduino_main True True []) = Some 0 \<and>
   map_option shoot_actions (arduino_main True True []) = Some 0 \<and>
   map_option toggle_actions (arduino_main True True [(LOW, LOW)]) = Some 1 \<and>
   map_option shoot_actions (arduino_main True True [(LOW, LOW)]) = Some 1 \<and>
   map_option totalPortalsFired (arduino_main True True [(LOW, LOW)]) = Some 1"
proof -
  obtain s0 where s0: "setup_fn True True power_on = Some s0"
    and facts: "\<not> isShooting s0" "totalPortalsFired s0 = 0" "lastButtonPress s0 = 0"
      "lastToggleState s0 = HIGH" "lastShootState s0 = HIGH" "clock s0 = 8500"
      "toggle_actions s0 = 0" "shoot_actions s0 = 0"
    by (rule setup_state)
  have gate: "word_of_int DEBOUNCE_DELAY < millis s0 - lastButtonPress s0"
    by (simp add: facts millis_def DEBOUNCE_DELAY_def)
  show ?thesis
    using handleButtons_both [OF gate facts(4) facts(5) facts(1)]
    by (simp add: arduino_main_def s0 facts)
qed

text \<open>
  Claim C2, amended. A poll made while at most 50 ms have passed since the last accepted
  action accepts nothing, whatever the two lines show: it only stores the two levels. A
  poll accepts at most one toggle and at most one shoot. A poll that accepts an action
  stamps \<open>lastButtonPress\<close> with the time at which the action ended, and the five
  iterations of \<open>loop()\<close> that follow it (10 ms apart) accept nothing. A poll made after the
  window has passed that sees a falling edge on both lines accepts both, the toggle first.
\<close>

theorem debounce_window:
  "(millis s - lastButtonPress s \<le> word_of_int DEBOUNCE_DELAY \<longrightarrow>
      handleButtons tg sh s =
        s\<lparr>lastToggleState := (if tg = LOW then LOW else HIGH),
          lastShootState := (if sh = LOW then LOW else HIGH)\<rparr> \<and>
      toggle_actions (handleButtons tg sh s) = toggle_actions s \<and>
      shoot_actions (handleButtons tg sh s) = shoot_actions s) \<and>
   toggle_actions (handleButtons tg sh s) \<le> toggle_actions s + 1 \<and>
   shoot_actions (handleButtons tg sh s) \<le> shoot_actions s + 1 \<and>
   (toggle_actions (handleButtons tg sh s) \<noteq> toggle_actions s \<or>
    shoot_actions (handleButtons tg sh s) \<noteq> shoot_actions s \<longrightarrow>
      lastButtonPress (handleButtons tg sh s) = millis (handleButtons tg sh s) \<and>
      (length rs \<le> 5 \<longrightarrow>
         toggle_actions (run_loop rs (loop tg sh s)) = toggle_actions (loop tg sh s) \<and>
         shoot_actions (run_loop rs (loop tg sh s)) = shoot_actions (loop tg sh s))) \<and>
   (word_of_int DEBOUNCE_DELAY < millis s - lastButtonPress s \<and>
    lastToggleState s = HIGH \<and> lastShootState s = HIGH \<and> \<not> isShooting s \<longrightarrow>
      toggle_actions (handleButtons LOW LOW s) = toggle_actions s + 1 \<and>
      shoot_actions (handleButtons LOW LOW s) = shoot_actions s + 1)"
proof -
  have closed: "millis s - lastButtonPress s \<le> word_of_int DEBOUNCE_DELAY \<longrightarrow>
      handleButtons tg sh s =
        s\<lparr>lastToggleState := (if tg = LOW then LOW else HIGH),
          lastShootState := (if sh = LOW then LOW else HIGH)\<rparr> \<and>
      toggle_actions (handleButtons tg sh s) = toggle_actions s \<and>
      shoot_actions (handleButtons tg sh s) = shoot_actions s"
    by (simp add: handleButtons_closed)
  have window: "toggle_actions (run_loop rs (loop tg sh s)) = toggle_actions (loop tg sh s) \<and>
         shoot_actions (run_loop rs (loop tg sh s)) = shoot_actions (loop tg sh s)"
    if acc: "toggle_actions (handleButtons tg sh s) \<noteq> toggle_actions s \<or>
             shoot_actions (handleButtons tg sh s) \<noteq> shoot_actions s"
      and len: "length rs \<le> 5"
  proof -
    have "clock (loop tg sh s) - lastButtonPress (loop tg sh s) = 10"
      using handleButtons_accept_stamp [OF acc] by (simp add: millis_def)
    then have "unat (clock (loop tg sh s) - lastButtonPress (loop tg sh s)) + 10 * length rs \<le> 60"
      using len by simp
    then show ?thesis
      by (rule run_loop_window)
  qed
  show ?thesis
    using closed window handleButtons_actions_le [of tg sh s] handleButtons_accept_stamp [of tg sh s]
      handleButtons_both [of s]
    by blast
qed

theorem debounce_window_witness:
  "millis (power_on\<lparr>clock := 8500, lastButtonPress := 8480\<rparr>)
     - lastButtonPress (power_on\<lparr>clock := 8500, lastButtonPress := 8480\<rparr>)
     \<le> word_of_int DEBOUNCE_DELAY \<and>
   toggle_actions (handleButtons LOW LOW (power_on\<lparr>clock := 8500, lastButtonPress := 8480\<rparr>)) = 0 \<and>
   shoot_actions (handleButtons LOW LOW (power_on\<lparr>clock := 8500, lastButtonPress := 8480\<rparr>)) = 0 \<and>
   toggle_actions (handleButtons LOW HIGH (power_on\<lparr>clock := 8500\<rparr>))
     \<noteq> toggle_actions (power_on\<lparr>clock := 8500\<rparr>) \<and>
   length [(HIGH, LOW), (LOW, LOW), (HIGH, HIGH), (LOW, HIGH), (HIGH, LOW)] \<le> 5 \<and>
   toggle_actions (run_loop [(HIGH, LOW), (LOW, LOW), (HIGH, HIGH), (LOW, HIGH), (HIGH, LOW)]
                    (loop LOW HIGH (power_on\<lparr>clock := 8500\<rparr>))) = 1 \<and>
   shoot_actions (run_loop [(HIGH, LOW), (LOW, LOW), (HIGH, HIGH), (LOW, HIGH), (HIGH, LOW)]
                    (loop LOW HIGH (power_on\<lparr>clock := 8500\<rparr>))) = 0 \<and>
   word_of_int DEBOUNCE_DELAY
     < millis (power_on\<lparr>clock := 8500\<rparr>) - lastButtonPress (power_on\<lparr>clock := 8500\<rparr>) \<and>
   lastToggleState (power_on\<lparr>clock := 8500\<rparr>) = HIGH \<and>
   lastShootState (power_on\<lparr>clock := 8500\<rparr>) = HIGH \<and>
   \<not> isShooting (power_on\<lparr>clock := 8500\<rparr>) \<and>
   toggle_actions (handleButtons LOW LOW (power_on\<lparr>clock := 8500\<rparr>)) = 1 \<and>
   shoot_actions (handleButtons LOW LOW (power_on\<lparr>clock := 8500\<rparr>)) = 1"
proof -
  let ?c = "power_on\<lparr>clock := 8500, lastButtonPress := 8480\<rparr>"
  let ?o = "power_on\<lparr>clock := 8500\<rparr>"
  let ?rs = "[(HIGH, LOW), (LOW, LOW), (HIGH, HIGH), (LOW, HIGH), (HIGH, LOW)]"
  have c: "millis ?c - lastButtonPress ?c \<le> word_of_int DEBOUNCE_DELAY"
    "toggle_actions ?c = 0" "shoot_actions ?c = 0"
    by (simp_all add: power_on_def millis_def DEBOUNCE_DELAY_def toggle_actions_def
          shoot_actions_def)
  have o: "word_of_int DEBOUNCE_DELAY < millis ?o - lastButtonPress ?o"
    "lastToggleState ?o = HIGH" "lastShootState ?o = HIGH" "\<not> isShooting ?o"
    "toggle_actions ?o = 0" "shoot_actions ?o = 0"
    by (simp_all add: power_on_def millis_def DEBOUNCE_DELAY_def toggle_actions_def
          shoot_actions_def)
  have t: "toggle_actions (handleButtons LOW HIGH ?o) = 1"
    "shoot_actions (handleButtons LOW HIGH ?o) = 0"
    using o by (simp_all add: handleButtons_def Let_def HIGH_def LOW_def)
  show ?thesis
    using debounce_window [of ?c LOW LOW "[]"] debounce_window [of ?o LOW HIGH ?rs]
      debounce_window [of ?o LOW LOW "[]"] c o t
    by simp
qed

subsection \<open>The shooting flag in the poller\<close>



subsection \<open>Audio failure at startup\<close>

text \<open>
  Claim C7. When \<open>audioPlayer.begin\<close> fails (and the display works), \<open>setup()\<close> returns with
  \<open>audioEnabled\<close> false and no command sent to the player. With the flag false every
  \<open>playAudio\<close> call leaves the state as it is, for every track, and over any number of
  iterations of \<open>loop()\<close> the flag stays false and the audio log stays as it was; for the
  whole program the audio log stays empty. Everything else does not depend on the flag:
  two runs on the same button readings from states that agree on all but the audio flag,
  the audio log and the contents of the display frames agree on all of that again (mode,
  counter, timestamps, clock, LED duty cycles and writes, number of frames shown, number
  of toggle and shoot screens). The main screen is pushed to the display whenever the
  shooting flag is clear.
\<close>

theorem audio_failure_disables_audio:
  "(\<exists>s'. setup_fn True False s = Some s' \<and> \<not> audioEnabled s' \<and> audioLog s' = audioLog s) \<and>
   (\<not> audioEnabled s \<longrightarrow> playAudio track s = s) \<and>
   (\<not> audioEnabled s \<longrightarrow>
      \<not> audioEnabled (run_loop rs s) \<and> audioLog (run_loop rs s) = audioLog s) \<and>
   (\<exists>s'. arduino_main True False readings = Some s' \<and> \<not> audioEnabled s' \<and> audioLog s' = []) \<and>
   (audio_blind s = audio_blind t \<longrightarrow>
      audio_blind (run_loop rs s) = audio_blind (run_loop rs t)) \<and>
   (\<not> isShooting s \<longrightarrow>
      displayLog (updateMainDisplay s) = displayLog s @ [displayBuf (updateMainDisplay s)])"
proof -
  have init: "\<exists>s'. setup_fn True False s = Some s' \<and> \<not> audioEnabled s' \<and>
                 audioLog s' = audioLog s" for s
    by (simp add: setup_fn_ok)
  obtain s0 where s0: "setup_fn True False power_on = Some s0" "\<not> audioEnabled s0"
    "audioLog s0 = audioLog power_on"
    using init [of power_on] by blast
  have main: "\<exists>s'. arduino_main True False readings = Some s' \<and> \<not> audioEnabled s' \<and>
                 audioLog s' = []"
  proof -
    have "audioLog s0 = []"
      by (simp add: s0 power_on_def)
    then show ?thesis
      using run_loop_audio_off [OF s0(2), of readings] by (simp add: arduino_main_def s0)
  qed
  show ?thesis
    using init [of s] main run_loop_audio_off [of s rs] run_loop_audio_blind [of s t rs]
    by (simp add: playAudio_def updateMainDisplay_displayLog)
qed

theorem audio_failure_disables_audio_witness:
  "\<not> audioEnabled (power_on\<lparr>audioEnabled := False, clock := 4300\<rparr>) \<and>
   playAudio SOUND_BLUE_PORTAL (power_on\<lparr>audioEnabled := False, clock := 4300\<rparr>) =
     power_on\<lparr>audioEnabled := False, clock := 4300\<rparr> \<and>
   audioLog (run_loop [(LOW, HIGH), (HIGH, LOW)]
              (power_on\<lparr>audioEnabled := False, clock := 4300\<rparr>)) = [] \<and>
   audio_blind (power_on\<lparr>audioEnabled := False, clock := 4300\<rparr>) =
     audio_blind (power_on\<lparr>clock := 4300\<rparr>) \<and>
   audio_blind (run_loop [(LOW, HIGH), (HIGH, LOW)]
                 (power_on\<lparr>audioEnabled := False, clock := 4300\<rparr>)) =
     audio_blind (run_loop [(LOW, HIGH), (HIGH, LOW)] (power_on\<lparr>clock := 4300\<rparr>)) \<and>
   \<not> isShooting (power_on\<lparr>audioEnabled := False, clock := 4300\<rparr>) \<and>
   displayLog (updateMainDisplay (power_on\<lparr>audioEnabled := False, clock := 4300\<rparr>)) =
     [displayBuf (updateMainDisplay (power_on\<lparr>audioEnabled := False, clock := 4300\<rparr>))] \<and>
   currentMode (loop LOW HIGH (power_on\<lparr>audioEnabled := False, clock := 4300\<rparr>)) = RED_MODE"
proof -
  let ?off = "power_on\<lparr>audioEnabled := False, clock := 4300\<rparr>"
  let ?on = "power_on\<lparr>clock := 4300\<rparr>"
  have off: "\<not> audioEnabled ?off" "\<not> isShooting ?off" "audioLog ?off = []"
    "displayLog ?off = []" "lastToggleState ?off = HIGH" "currentMode ?off = BLUE_MODE"
    "word_of_int DEBOUNCE_DELAY < millis ?off - lastButtonPress ?off"
    by (simp_all add: power_on_def millis_def DEBOUNCE_DELAY_def)
  have blind: "audio_blind ?off = audio_blind ?on"
    by (simp add: audio_blind_def toggle_actions_def shoot_actions_def)
  have toggled: "currentMode (loop LOW HIGH ?off) = RED_MODE"
    by (simp add: accepted_toggle [OF off(7) off(5)] off)
  show ?thesis
    using audio_failure_disables_audio [of ?off SOUND_BLUE_PORTAL "[(LOW, HIGH), (HIGH, LOW)]" "[]" ?on]
      off blind toggled
    by simp
qed

subsection \<open>A press inside the debounce window\<close>

text \<open>
  Claim C9. Every poll stores the level it read for each button, accepted or not. A poll
  inside the debounce window changes nothing else, so a press first seen there is dropped
  and its line is remembered as low. While the toggle line stays low, no toggle is carried
  out over any number of iterations of \<open>loop()\<close>, however long, and whatever the shoot
  line does; with the shoot line high the mode, the counter, the LED writes and the audio
  log do not change at all. The same holds for a held shoot line and shoot actions. Once
  the line has been seen high again, a low level read after the window has passed is
  accepted.
\<close>

theorem rejected_press_is_discarded:
  "lastToggleState (handleButtons tg sh s) = (if tg = LOW then LOW else HIGH) \<and>
   lastShootState (handleButtons tg sh s) = (if sh = LOW then LOW else HIGH) \<and>
   (millis s - lastButtonPress s \<le> word_of_int DEBOUNCE_DELAY \<longrightarrow>
      handleButtons tg sh s =
        s\<lparr>lastToggleState := (if tg = LOW then LOW else HIGH),
          lastShootState := (if sh = LOW then LOW else HIGH)\<rparr>) \<and>
   (lastToggleState s = LOW \<and> (\<forall>r \<in> set rs. fst r = LOW) \<longrightarrow>
      toggle_actions (run_loop rs s) = toggle_actions s) \<and>
   (lastShootState s = LOW \<and> (\<forall>r \<in> set rs. snd r = LOW) \<longrightarrow>
      shoot_actions (run_loop rs s) = shoot_actions s \<and>
      totalPortalsFired (run_loop rs s) = totalPortalsFired s) \<and>
   (lastToggleState s = LOW \<and> (\<forall>r \<in> set rs. r = (LOW, HIGH)) \<longrightarrow>
      currentMode (run_loop rs s) = currentMode s \<and>
      totalPortalsFired (run_loop rs s) = totalPortalsFired s \<and>
      pwmLog (run_loop rs s) = pwmLog s \<and> audioLog (run_loop rs s) = audioLog s) \<and>
   (word_of_int DEBOUNCE_DELAY < millis s - lastButtonPress s \<and> lastToggleState s = HIGH \<longrightarrow>
      toggle_actions (handleButtons LOW sh s) = toggle_actions s + 1) \<and>
   (word_of_int DEBOUNCE_DELAY < millis s - lastButtonPress s \<and> lastShootState s = HIGH \<and>
    \<not> isShooting s \<longrightarrow>
      shoot_actions (handleButtons tg LOW s) = shoot_actions s + 1)"
proof -
  have again: "toggle_actions (handleButtons LOW sh s) = toggle_actions s + 1"
    if "word_of_int DEBOUNCE_DELAY < millis s - lastButtonPress s" "lastToggleState s = HIGH"
    using that by (simp add: handleButtons_def Let_def HIGH_def LOW_def)
  have again': "shoot_actions (handleButtons tg LOW s) = shoot_actions s + 1"
    if "word_of_int DEBOUNCE_DELAY < millis s - lastButtonPress s" "lastShootState s = HIGH"
      "\<not> isShooting s"
    using that by (simp add: handleButtons_def Let_def HIGH_def LOW_def)
  show ?thesis
    using handleButtons_closed [of s tg sh] run_loop_held_toggle [of s rs]
      run_loop_held_shoot [of s rs] run_loop_held_toggle_only [of s rs] again again'
    by simp
qed

theorem rejected_press_is_discarded_witness:
  "millis (power_on\<lparr>clock := 8500, lastButtonPress := 8480\<rparr>)
     - lastButtonPress (power_on\<lparr>clock := 8500, lastButtonPress := 8480\<rparr>)
     \<le> word_of_int DEBOUNCE_DELAY \<and>
   lastToggleState (handleButtons LOW HIGH (power_on\<lparr>clock := 8500, lastButtonPress := 8480\<rparr>)) = LOW \<and>
   toggle_actions (handleButtons LOW HIGH (power_on\<lparr>clock := 8500, lastButtonPress := 8480\<rparr>)) = 0 \<and>
   map fst (replicate 20 (LOW, HIGH)) = replicate 20 LOW \<and>
   toggle_actions (run_loop (replicate 20 (LOW, HIGH))
      (handleButtons LOW HIGH (power_on\<lparr>clock := 8500, lastButtonPress := 8480\<rparr>))) = 0 \<and>
   currentMode (run_loop (replicate 20 (LOW, HIGH))
      (handleButtons LOW HIGH (power_on\<lparr>clock := 8500, lastButtonPress := 8480\<rparr>))) = BLUE_MODE \<and>
   word_of_int DEBOUNCE_DELAY
     < millis (power_on\<lparr>clock := 8700, lastButtonPress := 8480\<rparr>)
       - lastButtonPress (power_on\<lparr>clock := 8700, lastButtonPress := 8480\<rparr>) \<and>
   lastToggleState (power_on\<lparr>clock := 8700, lastButtonPress := 8480\<rparr>) = HIGH \<and>
   toggle_actions (handleButtons LOW HIGH (power_on\<lparr>clock := 8700, lastButtonPress := 8480\<rparr>)) = 1"
proof -
  let ?c = "power_on\<lparr>clock := 8500, lastButtonPress := 8480\<rparr>"
  let ?d = "power_on\<lparr>clock := 8700, lastButtonPress := 8480\<rparr>"
  let ?h = "handleButtons LOW HIGH ?c"
  have c: "millis ?c - lastButtonPress ?c \<le> word_of_int DEBOUNCE_DELAY"
    "toggle_actions ?c = 0" "currentMode ?c = BLUE_MODE"
    by (simp_all add: power_on_def millis_def DEBOUNCE_DELAY_def toggle_actions_def)
  have d: "word_of_int DEBOUNCE_DELAY < millis ?d - lastButtonPress ?d"
    "lastToggleState ?d = HIGH" "toggle_actions ?d = 0"
    by (simp_all add: power_on_def millis_def DEBOUNCE_DELAY_def toggle_actions_def)
  have held: "\<forall>r \<in> set (replicate 20 (LOW, HIGH)). fst r = LOW"
    "\<forall>r \<in> set (replicate 20 (LOW, HIGH)). r = (LOW, HIGH)"
    by simp_all
  have h: "?h = ?c\<lparr>lastToggleState := LOW, lastShootState := HIGH\<rparr>"
    using rejected_press_is_discarded [of LOW HIGH ?c "[]"] c(1) by (simp add: HIGH_def LOW_def)
  have h': "lastToggleState ?h = LOW" "toggle_actions ?h = 0" "currentMode ?h = BLUE_MODE"
    using c by (simp_all add: h)
  have "toggle_actions (run_loop (replicate 20 (LOW, HIGH)) ?h) = 0"
    "currentMode (run_loop (replicate 20 (LOW, HIGH)) ?h) = BLUE_MODE"
    using rejected_press_is_discarded [of LOW HIGH ?h "replicate 20 (LOW, HIGH)"] held h'
    by simp_all
  moreover have "toggle_actions (handleButtons LOW HIGH ?d) = 1"
    using rejected_press_is_discarded [of LOW HIGH ?d "[]"] d by simp
  ultimately show ?thesis
    using c d h' by simp
qed

end
